theory Spec2Isabelle
  imports Complex_Main "HOL-Library.AList" "HOL-Library.List_Lexorder" "HOL-Library.Char_ord"
begin

section \<open>Errors and dictionaries\<close>

text \<open>
  Every exception the modelled code can raise is a value. \<open>AttributeNotFound n\<close> is the
  plain \<^verbatim>\<open>Exception("Attribute '%s' not found" % n)\<close> of \<^verbatim>\<open>BaseLayer.__init__\<close>;
  \<open>AxisError\<close> is numpy's error for an axis that an array does not have.
\<close>

datatype error =
    KeyError | ValueError | TypeError | AttributeError | IndexError
  | AssertionError | UnboundLocalError | AxisError | AttributeNotFound string

text \<open>
  A Python \<^verbatim>\<open>dict\<close> keeps its keys in insertion order and \<^verbatim>\<open>d[k] = v\<close> keeps the
  place of a key that is already there: an association list updated with
  \<^const>\<open>AList.update\<close>. Keys are strings; \<^verbatim>\<open>sorted\<close> orders them
  lexicographically by character code.
\<close>

type_synonym 'v dict = "(string \<times> 'v) list"

definition keys :: "'v dict \<Rightarrow> string list" where
  "keys d = map fst d"

definition getitem :: "'v dict \<Rightarrow> string \<Rightarrow> error + 'v" where
  "getitem d k = (case map_of d k of None \<Rightarrow> Inl KeyError | Some v \<Rightarrow> Inr v)"

definition setitem :: "string \<Rightarrow> 'v \<Rightarrow> 'v dict \<Rightarrow> 'v dict" where
  "setitem k v d = AList.update k v d"

definition bind :: "error + 'a \<Rightarrow> ('a \<Rightarrow> error + 'b) \<Rightarrow> error + 'b" where
  "bind m f = (case m of Inl e \<Rightarrow> Inl e | Inr x \<Rightarrow> f x)"

text \<open>A \<^verbatim>\<open>for\<close> loop whose body may raise: the first error ends it.\<close>

fun foldM :: "('a \<Rightarrow> 's \<Rightarrow> error + 's) \<Rightarrow> 'a list \<Rightarrow> 's \<Rightarrow> error + 's" where
  "foldM f [] s = Inr s"
| "foldM f (x # xs) s = bind (f x s) (foldM f xs)"

fun mapM :: "('a \<Rightarrow> error + 'b) \<Rightarrow> 'a list \<Rightarrow> error + 'b list" where
  "mapM f [] = Inr []"
| "mapM f (x # xs) =
     (case f x of Inl e \<Rightarrow> Inl e
      | Inr y \<Rightarrow> (case mapM f xs of Inl e \<Rightarrow> Inl e | Inr ys \<Rightarrow> Inr (y # ys)))"

section \<open>Numbers\<close>

text \<open>
  An element of an array: a finite number, an infinity or NaN. Finite numbers are real
  numbers: the rounding of floating-point arithmetic, its overflow to an infinity and the
  sign of zero are outside the model. Infinities and NaN follow IEEE 754: \<open>0 * inf\<close>,
  \<open>inf - inf\<close>, \<open>0 / 0\<close> and \<open>inf / inf\<close> are NaN, and NaN spreads.
\<close>

datatype num = Fin real | PInf | NInf | NaN

fun is_finite :: "num \<Rightarrow> bool" where
  "is_finite (Fin r) = True"
| "is_finite x = False"

fun sign :: "num \<Rightarrow> int" where
  "sign (Fin r) = (if 0 < r then 1 else if r < 0 then - 1 else 0)"
| "sign PInf = 1"
| "sign NInf = - 1"
| "sign NaN = 0"

fun neg :: "num \<Rightarrow> num" where
  "neg (Fin r) = Fin (- r)"
| "neg PInf = NInf"
| "neg NInf = PInf"
| "neg NaN = NaN"

fun mul :: "num \<Rightarrow> num \<Rightarrow> num" where
  "mul (Fin a) (Fin b) = Fin (a * b)"
| "mul NaN y = NaN"
| "mul x NaN = NaN"
| "mul x y = (if 0 < sign x * sign y then PInf else if sign x * sign y < 0 then NInf else NaN)"

fun add :: "num \<Rightarrow> num \<Rightarrow> num" where
  "add (Fin a) (Fin b) = Fin (a + b)"
| "add NaN y = NaN"
| "add x NaN = NaN"
| "add PInf NInf = NaN"
| "add NInf PInf = NaN"
| "add PInf y = PInf"
| "add NInf y = NInf"
| "add x y = y"

text \<open>True division; a finite number over zero is an infinity of its sign.\<close>

fun divide_num :: "num \<Rightarrow> num \<Rightarrow> num" where
  "divide_num (Fin a) (Fin b) =
     (if b = 0 then (if 0 < a then PInf else if a < 0 then NInf else NaN) else Fin (a / b))"
| "divide_num NaN y = NaN"
| "divide_num x NaN = NaN"
| "divide_num (Fin a) y = Fin 0"
| "divide_num x (Fin b) = (if b < 0 then neg x else x)"
| "divide_num x y = NaN"

text \<open>\<^verbatim>\<open>np.maximum\<close> and \<^verbatim>\<open>np.minimum\<close> on two elements: NaN if one of them is.\<close>

fun maxn :: "num \<Rightarrow> num \<Rightarrow> num" where
  "maxn (Fin a) (Fin b) = Fin (max a b)"
| "maxn NaN y = NaN"
| "maxn x NaN = NaN"
| "maxn PInf y = PInf"
| "maxn x PInf = PInf"
| "maxn NInf y = y"
| "maxn x y = x"

fun minn :: "num \<Rightarrow> num \<Rightarrow> num" where
  "minn (Fin a) (Fin b) = Fin (min a b)"
| "minn NaN y = NaN"
| "minn x NaN = NaN"
| "minn NInf y = NInf"
| "minn x NInf = NInf"
| "minn PInf y = y"
| "minn x y = x"

text \<open>\<^verbatim>\<open>x > 0\<close>: false for NaN.\<close>

fun gt0 :: "num \<Rightarrow> bool" where
  "gt0 (Fin r) = (0 < r)"
| "gt0 PInf = True"
| "gt0 x = False"

text \<open>\<^verbatim>\<open>np.exp\<close> on one element; the exponential of a finite number is computed by no
  evaluation.\<close>

definition np_exp :: "real \<Rightarrow> real" where [code del]:
  "np_exp x = exp x"

fun expn :: "num \<Rightarrow> num" where
  "expn (Fin r) = Fin (np_exp r)"
| "expn PInf = PInf"
| "expn NInf = Fin 0"
| "expn NaN = NaN"

subsection \<open>Element types\<close>

text \<open>
  Two element types: 64-bit floats and 64-bit integers (an integer element is a finite
  number that is an integer in range). The other element types of numpy are outside the
  model. Integer arithmetic wraps around; a float stored into an integer array loses its
  fraction, and numbers that have no place in 64 bits (what C leaves to the platform)
  become the smallest integer, as on x86-64.
\<close>

datatype dtype = Float64 | Int64

definition promote :: "dtype \<Rightarrow> dtype \<Rightarrow> dtype" where
  "promote a b = (if a = Float64 \<or> b = Float64 then Float64 else Int64)"

definition trunc :: "real \<Rightarrow> int" where
  "trunc r = (if r < 0 then - \<lfloor>- r\<rfloor> else \<lfloor>r\<rfloor>)"

fun cast :: "dtype \<Rightarrow> num \<Rightarrow> num" where
  "cast Float64 x = x"
| "cast Int64 (Fin r) =
     (if - (2 ^ 63) \<le> trunc r \<and> trunc r < 2 ^ 63 then Fin (of_int (trunc r))
      else Fin (- (2 ^ 63)))"
| "cast Int64 x = Fin (- (2 ^ 63))"

fun wrap :: "num \<Rightarrow> num" where
  "wrap (Fin r) = Fin (of_int ((\<lfloor>r\<rfloor> + 2 ^ 63) mod 2 ^ 64 - 2 ^ 63))"
| "wrap x = x"

text \<open>The result of an arithmetic operation, in the element type it is computed in.\<close>

definition fit :: "dtype \<Rightarrow> num \<Rightarrow> num" where
  "fit dt x = (if dt = Int64 then wrap x else x)"

section \<open>Arrays\<close>

text \<open>
  A numpy array is its element type, its shape and its elements in row-major (C) order.
  A well-formed array has as many elements as its shape says. \<open>scalar\<close> marks a numpy
  scalar (\<^verbatim>\<open>np.float64\<close>, \<^verbatim>\<open>np.int64\<close>), which is what arithmetic returns when the result
  has no axis: it has the shape \<open>()\<close> and one element, and cannot be assigned into or
  resized.
\<close>

datatype ndarray = NDArray (dtype: dtype) (shape: "nat list") (flat: "num list") (scalar: bool)

definition size_of :: "ndarray \<Rightarrow> nat" where
  "size_of a = prod_list (shape a)"

definition well_formed :: "ndarray \<Rightarrow> bool" where
  "well_formed a = (length (flat a) = prod_list (shape a))"

text \<open>An array of 64-bit floats, or of 64-bit integers, with the given finite elements.\<close>

definition farray :: "nat list \<Rightarrow> real list \<Rightarrow> ndarray" where
  "farray s xs = NDArray Float64 s (map Fin xs) False"

definition iarray :: "nat list \<Rightarrow> int list \<Rightarrow> ndarray" where
  "iarray s xs = NDArray Int64 s (map (\<lambda>i. Fin (of_int i)) xs) False"

text \<open>What an arithmetic expression returns: a numpy scalar when there is no axis.\<close>

definition result :: "dtype \<Rightarrow> nat list \<Rightarrow> num list \<Rightarrow> ndarray" where
  "result dt s xs = NDArray dt s xs (s = [])"

definition vec :: "dtype \<Rightarrow> num list \<Rightarrow> ndarray" where
  "vec dt xs = NDArray dt [length xs] xs False"

text \<open>\<^verbatim>\<open>np.zeros(s, dtype=dt)\<close>\<close>

definition zeros :: "dtype \<Rightarrow> nat list \<Rightarrow> ndarray" where
  "zeros dt s = NDArray dt s (replicate (prod_list s) (Fin 0)) False"

text \<open>\<^verbatim>\<open>np.empty((0,))\<close>: one axis of length 0, no element, 64-bit floats.\<close>

definition empty0 :: ndarray where
  "empty0 = NDArray Float64 [0] [] False"

text \<open>\<^verbatim>\<open>a.ravel()\<close>: the elements as a one-dimensional array.\<close>

definition ravel :: "ndarray \<Rightarrow> ndarray" where
  "ravel a = vec (dtype a) (flat a)"

text \<open>
  \<^verbatim>\<open>np.concatenate(arrays, axis=0)\<close> on one-dimensional arrays (no other reaches it);
  numpy raises ValueError on an empty list ("need at least one array to concatenate") and
  on an array without axes. The result has floats as soon as one array has.
\<close>

definition concatenate :: "ndarray list \<Rightarrow> error + ndarray" where
  "concatenate arrs =
     (if arrs = [] \<or> list_ex (\<lambda>a. length (shape a) \<noteq> 1) arrs then Inl ValueError
      else Inr (vec (foldr promote (map dtype arrs) Int64) (concat (map flat arrs))))"

text \<open>
  \<^verbatim>\<open>a.flat[...] = src\<close>: numpy converts \<open>src\<close> to the element type of \<open>a\<close>; its flat
  iterator assignment then leaves the array alone when \<open>src\<close> is empty and otherwise
  fills the array in order, starting over in \<open>src\<close> when it runs out. On a numpy scalar
  the iterator runs over a copy.
\<close>

definition flat_assign :: "ndarray \<Rightarrow> num list \<Rightarrow> ndarray" where
  "flat_assign a src =
     (if scalar a \<or> src = [] then a
      else NDArray (dtype a) (shape a)
             (map (\<lambda>i. cast (dtype a) (src ! (i mod length src))) [0..<size_of a]) False)"

text \<open>
  \<^verbatim>\<open>value[k:kk]\<close> for \<open>0 \<le> k \<le> kk\<close>: the elements of the rows \<open>k\<close> to \<open>kk - 1\<close>
  along the first axis, as far as there are; IndexError without an axis. \<open>span\<close> is
  the same on a list of elements.
\<close>

definition span :: "'a list \<Rightarrow> nat \<Rightarrow> nat \<Rightarrow> 'a list" where
  "span xs k kk = take (kk - k) (drop k xs)"

definition slice :: "ndarray \<Rightarrow> nat \<Rightarrow> nat \<Rightarrow> error + num list" where
  "slice v k kk =
     (case shape v of
        [] \<Rightarrow> Inl IndexError
      | d # ds \<Rightarrow> Inr (span (flat v) (k * prod_list ds) (kk * prod_list ds)))"

subsection \<open>Elementwise operations and broadcasting\<close>

text \<open>
  An operation with a Python scalar acts on every element and keeps the shape:
  \<^verbatim>\<open>0*a\<close>, \<^verbatim>\<open>np.maximum(a, 0)\<close>, \<^verbatim>\<open>np.minimum(0, a)\<close>, \<^verbatim>\<open>-a\<close> and \<^verbatim>\<open>1 - a\<close> keep the
  element type, \<^verbatim>\<open>a > 0\<close> gives truth values (here the integers 0 and 1, which multiply
  as the truth values do) and \<^verbatim>\<open>np.exp(a)\<close> gives floats.
\<close>

definition map_array :: "dtype \<Rightarrow> (num \<Rightarrow> num) \<Rightarrow> ndarray \<Rightarrow> ndarray" where
  "map_array dt f a = result dt (shape a) (map (\<lambda>x. fit dt (f x)) (flat a))"


definition maximum0 :: "ndarray \<Rightarrow> ndarray" where
  "maximum0 a = map_array (dtype a) (\<lambda>x. maxn x (Fin 0)) a"

definition minimum0 :: "ndarray \<Rightarrow> ndarray" where
  "minimum0 a = map_array (dtype a) (\<lambda>x. minn (Fin 0) x) a"

definition positive :: "ndarray \<Rightarrow> ndarray" where
  "positive a = result Int64 (shape a) (map (\<lambda>x. if gt0 x then Fin 1 else Fin 0) (flat a))"

definition negative :: "ndarray \<Rightarrow> ndarray" where
  "negative a = map_array (dtype a) neg a"

definition one_minus :: "ndarray \<Rightarrow> ndarray" where
  "one_minus a = map_array (dtype a) (\<lambda>x. add (Fin 1) (neg x)) a"

definition exp_array :: "ndarray \<Rightarrow> ndarray" where
  "exp_array a = map_array Float64 expn a"

text \<open>\<^verbatim>\<open>a.resize(s, refcheck=False)\<close>: the elements in order, cut or filled with zeros.
  On a numpy scalar the method works on a copy and changes nothing.\<close>

definition resize :: "nat list \<Rightarrow> ndarray \<Rightarrow> ndarray" where
  "resize s a =
     (if scalar a then a
      else NDArray (dtype a) s (take (prod_list s) (flat a @ replicate (prod_list s) (Fin 0))) False)"

definition pad_shape :: "nat \<Rightarrow> nat list \<Rightarrow> nat list" where
  "pad_shape n s = replicate (n - length s) 1 @ s"

text \<open>An assignment drops leading axes of length 1 that the target does not have.\<close>

fun strip_ones :: "nat \<Rightarrow> nat list \<Rightarrow> nat list" where
  "strip_ones n [] = []"
| "strip_ones n (d # ds) = (if n < length (d # ds) \<and> d = 1 then strip_ones n ds else d # ds)"

definition chunks :: "nat \<Rightarrow> nat \<Rightarrow> 'a list \<Rightarrow> 'a list list" where
  "chunks k n xs = map (\<lambda>i. take n (drop (i * n) xs)) [0..<k]"

text \<open>
  \<open>bcast d s xs\<close> repeats the elements \<open>xs\<close> of an array of shape \<open>s\<close> to the shape
  \<open>d\<close> of the same length, where every axis of \<open>s\<close> has the length of \<open>d\<close>'s or is 1.
\<close>

fun bcast :: "nat list \<Rightarrow> nat list \<Rightarrow> 'a list \<Rightarrow> 'a list" where
  "bcast (d # ds) (s # ss) xs =
     (if s = d then concat (map (bcast ds ss) (chunks d (prod_list ss) xs))
      else concat (replicate d (bcast ds ss xs)))"
| "bcast ds ss xs = xs"

definition broadcast_to :: "nat list \<Rightarrow> ndarray \<Rightarrow> error + num list" where
  "broadcast_to d a =
     (let s = pad_shape (length d) (strip_ones (length d) (shape a))
      in if list_all2 (\<lambda>x y. y = x \<or> y = 1) d s then Inr (bcast d s (flat a))
         else Inl ValueError)"

text \<open>
  \<^verbatim>\<open>dst[...] = src\<close>: the target keeps its shape and its element type, to which the
  elements of \<open>src\<close> are converted; ValueError when \<open>src\<close> does not broadcast to the
  shape, TypeError when the target is a numpy scalar.
\<close>

definition assign :: "ndarray \<Rightarrow> ndarray \<Rightarrow> error + ndarray" where
  "assign dst src =
     (if scalar dst then Inl TypeError
      else bind (broadcast_to (shape dst) src)
             (\<lambda>xs. Inr (NDArray (dtype dst) (shape dst) (map (cast (dtype dst)) xs) False)))"

fun broadcast_shapes :: "nat list \<Rightarrow> nat list \<Rightarrow> error + nat list" where
  "broadcast_shapes [] [] = Inr []"
| "broadcast_shapes (x # xs) (y # ys) =
     (if x = y \<or> y = 1 then bind (broadcast_shapes xs ys) (\<lambda>r. Inr (x # r))
      else if x = 1 then bind (broadcast_shapes xs ys) (\<lambda>r. Inr (y # r))
      else Inl ValueError)"
| "broadcast_shapes xs ys = Inl ValueError"

text \<open>An elementwise operation on two arrays, computed in the element type \<open>dt\<close>.\<close>

definition binop :: "dtype \<Rightarrow> (num \<Rightarrow> num \<Rightarrow> num) \<Rightarrow> ndarray \<Rightarrow> ndarray \<Rightarrow> error + ndarray" where
  "binop dt f a b =
     (let n = max (length (shape a)) (length (shape b));
          sa = pad_shape n (shape a);
          sb = pad_shape n (shape b)
      in bind (broadcast_shapes sa sb)
           (\<lambda>s. Inr (result dt s
                   (map2 (\<lambda>x y. fit dt (f x y)) (bcast s sa (flat a)) (bcast s sb (flat b))))))"

text \<open>\<^verbatim>\<open>a * b\<close> and \<^verbatim>\<open>a + b\<close> in the common element type, \<^verbatim>\<open>a / b\<close> in floats.\<close>

definition times :: "ndarray \<Rightarrow> ndarray \<Rightarrow> error + ndarray" where
  "times a b = binop (promote (dtype a) (dtype b)) mul a b"

definition plus_arrays :: "ndarray \<Rightarrow> ndarray \<Rightarrow> error + ndarray" where
  "plus_arrays a b = binop (promote (dtype a) (dtype b)) add a b"

definition divide_arrays :: "ndarray \<Rightarrow> ndarray \<Rightarrow> error + ndarray" where
  "divide_arrays a b = binop Float64 divide_num a b"

subsection \<open>Contractions\<close>

text \<open>Row-major positions: the multi-index of a flat position, and back.\<close>

fun unravel :: "nat list \<Rightarrow> nat \<Rightarrow> nat list" where
  "unravel [] i = []"
| "unravel (d # ds) i = (i div prod_list ds) # unravel ds (i mod prod_list ds)"

fun ravel_index :: "nat list \<Rightarrow> nat list \<Rightarrow> nat" where
  "ravel_index (d # ds) (i # js) = i * prod_list ds + ravel_index ds js"
| "ravel_index ds js = 0"

text \<open>\<^verbatim>\<open>np.transpose(a)\<close> and \<^verbatim>\<open>a.transpose()\<close>: the axes in reverse order.\<close>

definition transpose_array :: "ndarray \<Rightarrow> ndarray" where
  "transpose_array a =
     NDArray (dtype a) (rev (shape a))
       (map (\<lambda>j. flat a ! ravel_index (shape a) (rev (unravel (rev (shape a)) j)))
            [0..<prod_list (shape a)]) False"

text \<open>The sum of products along one axis, in the element type \<open>dt\<close>.\<close>

definition sum_products :: "dtype \<Rightarrow> (nat \<Rightarrow> num) \<Rightarrow> (nat \<Rightarrow> num) \<Rightarrow> nat \<Rightarrow> num" where
  "sum_products dt f g k =
     foldl (\<lambda>acc j. fit dt (add acc (fit dt (mul (f j) (g j))))) (Fin 0) [0..<k]"

text \<open>
  \<^verbatim>\<open>np.dot(a, b)\<close>: a product by a scalar when one argument has no axis; otherwise the
  sum over the last axis of \<open>a\<close> and the last axis of a one-dimensional \<open>b\<close>, or the
  second-to-last axis of a \<open>b\<close> with more axes. The two lengths must agree.
\<close>

definition dot :: "ndarray \<Rightarrow> ndarray \<Rightarrow> error + ndarray" where
  "dot a b =
     (let dt = promote (dtype a) (dtype b) in
      if shape a = [] then Inr (map_array dt (mul (hd (flat a))) b)
      else if shape b = [] then Inr (map_array dt (\<lambda>x. mul x (hd (flat b))) a)
      else
        (let k = last (shape a); n = prod_list (butlast (shape a)) in
         if length (shape b) = 1 then
           (if hd (shape b) = k then
              Inr (result dt (butlast (shape a))
                (map (\<lambda>i. sum_products dt (\<lambda>j. flat a ! (i * k + j)) (\<lambda>j. flat b ! j) k)
                     [0..<n]))
            else Inl ValueError)
         else
           (let m = last (shape b); p = prod_list (butlast (butlast (shape b))) in
            if last (butlast (shape b)) = k then
              Inr (result dt (butlast (shape a) @ butlast (butlast (shape b)) @ [m])
                (concat (map (\<lambda>i. concat (map (\<lambda>q. map (\<lambda>c.
                    sum_products dt (\<lambda>j. flat a ! (i * k + j))
                                    (\<lambda>j. flat b ! (q * k * m + j * m + c)) k)
                    [0..<m]) [0..<p])) [0..<n])))
            else Inl ValueError)))"

text \<open>
  \<^verbatim>\<open>np.tensordot(a, b)\<close> with its default \<^verbatim>\<open>axes=2\<close>: the last two axes of \<open>a\<close> are
  summed against the first two of \<open>b\<close>. numpy compares \<^verbatim>\<open>a.shape[-2]\<close> with
  \<^verbatim>\<open>b.shape[0]\<close>, then \<^verbatim>\<open>a.shape[-1]\<close> with \<^verbatim>\<open>b.shape[1]\<close>: IndexError at the first
  axis that is not there, ValueError at the first pair that differs.
\<close>

definition tensordot :: "ndarray \<Rightarrow> ndarray \<Rightarrow> error + ndarray" where
  "tensordot a b =
     (let sa = shape a; sb = shape b; dt = promote (dtype a) (dtype b) in
      if length sa < 2 \<or> length sb < 1 then Inl IndexError
      else if sa ! (length sa - 2) = sb ! 0 then
        (if length sb < 2 then Inl IndexError
         else if sa ! (length sa - 1) = sb ! 1 then
           (let k = prod_list (take 2 sb);
                n = prod_list (take (length sa - 2) sa);
                m = prod_list (drop 2 sb)
            in Inr (NDArray dt (take (length sa - 2) sa @ drop 2 sb)
                 (concat (map (\<lambda>i. map (\<lambda>c.
                     sum_products dt (\<lambda>j. flat a ! (i * k + j)) (\<lambda>j. flat b ! (j * m + c)) k)
                     [0..<m]) [0..<n])) False))
         else Inl ValueError)
      else Inl ValueError)"

text \<open>\<^verbatim>\<open>np.sum(a, axis=0)\<close>: the sum along the first axis.\<close>

definition sum_axis0 :: "ndarray \<Rightarrow> error + ndarray" where
  "sum_axis0 a =
     (case shape a of
        [] \<Rightarrow> Inl AxisError
      | d # ds \<Rightarrow>
          Inr (result (dtype a) ds
            (map (\<lambda>c. foldl (\<lambda>acc i. fit (dtype a) (add acc (flat a ! (i * prod_list ds + c))))
                         (Fin 0) [0..<d])
                 [0..<prod_list ds])))"

section \<open>Layers\<close>

text \<open>
  Values a configuration option can hold, as far as the layers look at them.
\<close>

datatype pyval =
    VNone | VInt int | VFloat real | VStr string
  | VList "pyval list" | VTuple "pyval list"

datatype layer_class = BaseLayer | ReLU | Sigmoid | InnerProduct | SoftMax

text \<open>
  A layer object: its class, the attributes stored on the instance (\<open>attrs\<close>, what
  \<^verbatim>\<open>setattr\<close> wrote), and the two dictionaries \<^verbatim>\<open>grad_\<close> and \<^verbatim>\<open>prms_\<close>, here
  \<open>grad\<close> and \<open>prms\<close>. Likewise \<^verbatim>\<open>top\<close> is written \<open>top'\<close> below, and the
  fields \<^verbatim>\<open>_layers\<close>, \<^verbatim>\<open>_blobs\<close>, \<^verbatim>\<open>_diffs\<close>, \<^verbatim>\<open>_blob_history\<close> of the network lose
  their underscore.
\<close>

record layer =
  cls :: layer_class
  attrs :: "pyval dict"
  grad :: "ndarray dict"
  prms :: "ndarray dict"

subsection \<open>Parameter and gradient accessors of \<^verbatim>\<open>BaseLayer\<close>\<close>

definition layer_gradient :: "layer \<Rightarrow> ndarray dict" where
  "layer_gradient l = grad l"

definition layer_parameters :: "layer \<Rightarrow> ndarray dict" where
  "layer_parameters l = prms l"

text \<open>
  \<^verbatim>\<open>np.concatenate([self.grad_[n].ravel() for n in sorted(self.grad_)], axis=0)\<close>
\<close>

definition layer_flat_gradient :: "layer \<Rightarrow> error + ndarray" where
  "layer_flat_gradient l =
     (case mapM (\<lambda>n. case getitem (grad l) n of Inl e \<Rightarrow> Inl e | Inr a \<Rightarrow> Inr (ravel a))
             (sort (keys (grad l))) of
        Inl e \<Rightarrow> Inl e
      | Inr arrs \<Rightarrow> concatenate arrs)"

definition layer_flat_parameters :: "layer \<Rightarrow> error + ndarray" where
  "layer_flat_parameters l =
     (if length (prms l) \<le> 0 then Inr empty0
      else (case mapM (\<lambda>n. case getitem (prms l) n of Inl e \<Rightarrow> Inl e | Inr a \<Rightarrow> Inr (ravel a))
                  (sort (keys (prms l))) of
              Inl e \<Rightarrow> Inl e
            | Inr arrs \<Rightarrow> concatenate arrs))"

text \<open>
  The setter's loop over \<^verbatim>\<open>sorted(self.prms_)\<close>, with the running offset \<open>k\<close>:
  \<^verbatim>\<open>kk = k + self.prms_[n].size; self.prms_[n].flat[...] = value[k:kk]; k = kk\<close>.
\<close>

fun set_flat_loop :: "string list \<Rightarrow> ndarray \<Rightarrow> nat \<Rightarrow> ndarray dict \<Rightarrow> error + ndarray dict" where
  "set_flat_loop [] val k d = Inr d"
| "set_flat_loop (n # ns) val k d =
     (case getitem d n of
        Inl e \<Rightarrow> Inl e
      | Inr a \<Rightarrow>
          (let kk = k + size_of a
           in case slice val k kk of
                Inl e \<Rightarrow> Inl e
              | Inr src \<Rightarrow> set_flat_loop ns val kk (setitem n (flat_assign a src) d)))"

definition layer_set_flat_parameters :: "ndarray \<Rightarrow> layer \<Rightarrow> error + layer" where
  "layer_set_flat_parameters val l =
     (case set_flat_loop (sort (keys (prms l))) val 0 (prms l) of
        Inl e \<Rightarrow> Inl e
      | Inr d \<Rightarrow> Inr (l\<lparr>prms := d\<rparr>))"


text \<open>
  Where the \<open>i\<close>-th of the names \<open>ns\<close> starts in the flat vector: the element counts
  of the parameters before it, added up.
\<close>

definition offset :: "ndarray dict \<Rightarrow> string list \<Rightarrow> nat \<Rightarrow> nat" where
  "offset d ns i = sum_list (map (\<lambda>n. size_of (the (map_of d n))) (take i ns))"

subsection \<open>Construction\<close>

text \<open>
  \<^verbatim>\<open>BaseLayer.__init__\<close> accepts a keyword when \<^verbatim>\<open>hasattr(self, n)\<close> holds and stores
  it with \<^verbatim>\<open>setattr\<close>. What the object has at that moment: the class variables
  (\<^verbatim>\<open>sigma\<close>, \<^verbatim>\<open>output_shape\<close>), the methods, the property \<^verbatim>\<open>type\<close>, what an
  earlier keyword stored, and the attributes the interpreter gives every object. The
  last are no part of the source and differ between versions of Python: they are the
  parameter \<open>oattrs\<close>. The properties \<^verbatim>\<open>gradient\<close>, \<^verbatim>\<open>flat_gradient\<close>,
  \<^verbatim>\<open>parameters\<close> and \<^verbatim>\<open>flat_parameters\<close> read \<^verbatim>\<open>grad_\<close> or \<^verbatim>\<open>prms_\<close>, which
  \<^verbatim>\<open>__init__\<close> creates only after the loop: their getters raise AttributeError there,
  so \<^verbatim>\<open>hasattr\<close> is false for them.
\<close>

fun class_var :: "layer_class \<Rightarrow> string \<Rightarrow> pyval option" where
  "class_var Sigmoid n = (if n = ''sigma'' then Some (VFloat 1) else None)"
| "class_var InnerProduct n = (if n = ''output_shape'' then Some (VInt 10) else None)"
| "class_var c n = None"

definition method_names :: "string list" where
  "method_names = [''__init__'', ''forward'', ''backward'', ''setup'', ''get_mutable_gradient'']"

text \<open>The attributes of every object of a class in Python 3.10, for the examples.\<close>

definition object_attrs :: "string list" where
  "object_attrs =
     [''__class__'', ''__delattr__'', ''__dict__'', ''__dir__'', ''__doc__'', ''__eq__'',
      ''__format__'', ''__ge__'', ''__getattribute__'', ''__gt__'', ''__hash__'',
      ''__init_subclass__'', ''__le__'', ''__lt__'', ''__module__'', ''__ne__'', ''__new__'',
      ''__reduce__'', ''__reduce_ex__'', ''__repr__'', ''__setattr__'', ''__sizeof__'',
      ''__str__'', ''__subclasshook__'', ''__weakref__'']"

definition hasattr :: "string list \<Rightarrow> layer_class \<Rightarrow> pyval dict \<Rightarrow> string \<Rightarrow> bool" where
  "hasattr oattrs c ats n =
     (n \<in> set (keys ats) \<or> class_var c n \<noteq> None \<or> n \<in> set method_names \<or> n = ''type''
      \<or> n \<in> set oattrs)"

text \<open>
  \<^verbatim>\<open>setattr(self, n, v)\<close>: \<^verbatim>\<open>type\<close> is a property without a setter and
  \<^verbatim>\<open>__weakref__\<close> is read-only (AttributeError); \<^verbatim>\<open>__class__\<close> and \<^verbatim>\<open>__dict__\<close> take
  a class and a dictionary, which no \<open>pyval\<close> is (TypeError); everything else lands in
  the instance dictionary.
\<close>

definition setattr :: "string \<Rightarrow> pyval \<Rightarrow> pyval dict \<Rightarrow> error + pyval dict" where
  "setattr n v ats =
     (if n = ''type'' \<or> n = ''__weakref__'' then Inl AttributeError
      else if n = ''__class__'' \<or> n = ''__dict__'' then Inl TypeError
      else Inr (setitem n v ats))"

text \<open>The names \<^verbatim>\<open>setattr\<close> refuses.\<close>

definition read_only :: "string \<Rightarrow> bool" where
  "read_only n = (n = ''type'' \<or> n = ''__weakref__'' \<or> n = ''__class__'' \<or> n = ''__dict__'')"

text \<open>Reading a data attribute: the instance first, then the class.\<close>

definition getattr :: "layer \<Rightarrow> string \<Rightarrow> error + pyval" where
  "getattr l n =
     (case map_of (attrs l) n of
        Some v \<Rightarrow> Inr v
      | None \<Rightarrow> (case class_var (cls l) n of Some v \<Rightarrow> Inr v | None \<Rightarrow> Inl AttributeError))"

text \<open>
  \<^verbatim>\<open>__init__(self, **lPrms)\<close>: a keyword named \<^verbatim>\<open>self\<close> collides with the first
  parameter, and Python raises TypeError before the body runs.
\<close>

definition base_init :: "string list \<Rightarrow> layer_class \<Rightarrow> pyval dict \<Rightarrow> error + layer" where
  "base_init oattrs c lPrms =
     (if ''self'' \<in> set (keys lPrms) then Inl TypeError
      else bind (foldM (\<lambda>(n, v) ats. if hasattr oattrs c ats n then setattr n v ats
                                   else Inl (AttributeNotFound n)) lPrms [])
             (\<lambda>ats. Inr \<lparr>cls = c, attrs = ats, grad = [], prms = []\<rparr>))"

text \<open>\<^verbatim>\<open>try: x = tuple(x)\<close> \<^verbatim>\<open>except: x = (x,)\<close>\<close>

fun as_tuple :: "pyval \<Rightarrow> pyval" where
  "as_tuple (VList vs) = VTuple vs"
| "as_tuple (VTuple vs) = VTuple vs"
| "as_tuple (VStr s) = VTuple (map (\<lambda>c. VStr [c]) s)"
| "as_tuple v = VTuple [v]"

definition innerproduct_init :: "string list \<Rightarrow> pyval dict \<Rightarrow> error + layer" where
  "innerproduct_init oattrs kwargs =
     bind (base_init oattrs InnerProduct kwargs)
       (\<lambda>l. bind (getattr l ''output_shape'')
          (\<lambda>v. Inr (l\<lparr>attrs := setitem ''output_shape'' (as_tuple v) (attrs l)\<rparr>)))"

text \<open>Constructing a layer of class \<open>c\<close> from a configuration mapping.\<close>

definition layer_init :: "string list \<Rightarrow> layer_class \<Rightarrow> pyval dict \<Rightarrow> error + layer" where
  "layer_init oattrs c kwargs =
     (if c = InnerProduct then innerproduct_init oattrs kwargs else base_init oattrs c kwargs)"

subsection \<open>Setup, forward and backward\<close>

text \<open>
  A layer works on arrays it is handed by reference. The arrays live in a store (a
  dictionary from names to arrays) and the layer gets the names: two lists into the store
  of values (\<open>bottom\<close>, \<open>top\<close>) and, going backward, two into the store of
  gradients (\<open>botgrad\<close>, \<open>topgrad\<close>). A name that occurs twice is the same array twice.
\<close>

type_synonym store = "ndarray dict"

definition nth_err :: "'a list \<Rightarrow> nat \<Rightarrow> error + 'a" where
  "nth_err xs i = (if i < length xs then Inr (xs ! i) else Inl IndexError)"

text \<open>\<^verbatim>\<open>for b,t in zip(bottom,top): t.resize(b.shape,refcheck=False)\<close>\<close>

definition resize_setup :: "string list \<Rightarrow> string list \<Rightarrow> store \<Rightarrow> error + store" where
  "resize_setup bottom top' st =
     foldM (\<lambda>(b, t) st.
        bind (getitem st b) (\<lambda>ab.
        bind (getitem st t) (\<lambda>atop.
        Inr (setitem t (resize (shape ab) atop) st))))
       (zip bottom top') st"

text \<open>\<^verbatim>\<open>for b,t in zip(bottom,top): t[...] = np.maximum(b, 0)\<close>\<close>

definition relu_forward :: "string list \<Rightarrow> string list \<Rightarrow> store \<Rightarrow> error + store" where
  "relu_forward bottom top' st =
     foldM (\<lambda>(b, t) st.
        bind (getitem st b) (\<lambda>ab.
        bind (getitem st t) (\<lambda>atop.
        bind (assign atop (maximum0 ab)) (\<lambda>r.
        Inr (setitem t r st)))))
       (zip bottom top') st"

text \<open>\<^verbatim>\<open>for b,t,db,dt in zip(bottom,top,botgrad,topgrad): db[...] = dt * (t>0)\<close>\<close>

definition relu_backward ::
  "string list \<Rightarrow> string list \<Rightarrow> string list \<Rightarrow> string list \<Rightarrow> store \<Rightarrow> store \<Rightarrow> error + store" where
  "relu_backward bottom top' botgrad topgrad vals df =
     foldM (\<lambda>(b, t, db, dt) df.
        bind (getitem df dt) (\<lambda>adt.
        bind (getitem vals t) (\<lambda>atop.
        bind (times adt (positive atop)) (\<lambda>g.
        bind (getitem df db) (\<lambda>adb.
        bind (assign adb g) (\<lambda>r.
        Inr (setitem db r df)))))))
       (zip bottom (zip top' (zip botgrad topgrad))) df"

text \<open>
  A configuration value used as a number, as numpy reads it: a Python \<^verbatim>\<open>int\<close> as an
  integer (taken to fit 64 bits), a \<^verbatim>\<open>float\<close> as a float, a list or tuple as an array.
\<close>

definition stack :: "(error + ndarray) list \<Rightarrow> error + ndarray" where
  "stack rs =
     bind (mapM id rs) (\<lambda>arrs.
       if arrs = [] then Inr empty0
       else if list_all (\<lambda>a. shape a = shape (hd arrs)) arrs
         then Inr (NDArray (foldr promote (map dtype arrs) Int64)
                     (length arrs # shape (hd arrs)) (concat (map flat arrs)) False)
       else Inl ValueError)"

primrec asarray :: "pyval \<Rightarrow> error + ndarray" where
  "asarray VNone = Inl TypeError"
| "asarray (VInt i) = Inr (NDArray Int64 [] [Fin (of_int i)] True)"
| "asarray (VFloat r) = Inr (NDArray Float64 [] [Fin r] True)"
| "asarray (VStr s) = Inl TypeError"
| "asarray (VList vs) = stack (map asarray vs)"
| "asarray (VTuple vs) = stack (map asarray vs)"

text \<open>
  \<^verbatim>\<open>Sigmoid.forward\<close>: \<^verbatim>\<open>d = -b * self.sigma\<close>, \<^verbatim>\<open>ep = np.exp(-np.maximum(0,d))\<close>,
  \<^verbatim>\<open>en = np.exp(np.minimum(0,d))\<close>, \<^verbatim>\<open>t[...] = ep / (ep + en)\<close>.
\<close>

definition sigmoid_forward :: "layer \<Rightarrow> string list \<Rightarrow> string list \<Rightarrow> store \<Rightarrow> error + store" where
  "sigmoid_forward l bottom top' st =
     foldM (\<lambda>(b, t) st.
        bind (getitem st b) (\<lambda>ab.
        bind (getattr l ''sigma'') (\<lambda>sv.
        bind (asarray sv) (\<lambda>sigma.
        bind (times (negative ab) sigma) (\<lambda>d.
        (let ep = exp_array (negative (maximum0 d));
             en = exp_array (minimum0 d)
         in bind (plus_arrays ep en) (\<lambda>sm.
            bind (divide_arrays ep sm) (\<lambda>y.
            bind (getitem st t) (\<lambda>atop.
            bind (assign atop y) (\<lambda>r.
            Inr (setitem t r st)))))))))))
       (zip bottom top') st"

text \<open>\<^verbatim>\<open>db[...] = dt * t * (1 - t) * self.sigma\<close>\<close>

definition sigmoid_backward ::
  "layer \<Rightarrow> string list \<Rightarrow> string list \<Rightarrow> string list \<Rightarrow> string list \<Rightarrow> store \<Rightarrow> store \<Rightarrow> error + store" where
  "sigmoid_backward l bottom top' botgrad topgrad vals df =
     foldM (\<lambda>(b, t, db, dt) df.
        bind (getitem df dt) (\<lambda>adt.
        bind (getitem vals t) (\<lambda>atop.
        bind (times adt atop) (\<lambda>g1.
        bind (times g1 (one_minus atop)) (\<lambda>g2.
        bind (getattr l ''sigma'') (\<lambda>sv.
        bind (asarray sv) (\<lambda>sigma.
        bind (times g2 sigma) (\<lambda>g.
        bind (getitem df db) (\<lambda>adb.
        bind (assign adb g) (\<lambda>r.
        Inr (setitem db r df)))))))))))
       (zip bottom (zip top' (zip botgrad topgrad))) df"

text \<open>
  A shape out of \<^verbatim>\<open>self.output_shape\<close>, which \<^verbatim>\<open>InnerProduct.__init__\<close> has made a
  tuple: numpy wants integers (TypeError) that are not negative (ValueError).
\<close>

definition as_dim :: "pyval \<Rightarrow> error + nat" where
  "as_dim v = (case v of VInt i \<Rightarrow> (if i < 0 then Inl ValueError else Inr (nat i))
               | _ \<Rightarrow> Inl TypeError)"

definition as_shape :: "pyval \<Rightarrow> error + nat list" where
  "as_shape v = (case v of VTuple vs \<Rightarrow> mapM as_dim vs | _ \<Rightarrow> Inl TypeError)"

text \<open>
  \<^verbatim>\<open>InnerProduct.setup\<close>: the assertion on the two lists, the resize of \<^verbatim>\<open>top[0]\<close>, then
  \<^verbatim>\<open>w\<close> of shape \<^verbatim>\<open>bottom[0].shape + self.output_shape\<close>, \<^verbatim>\<open>b\<close> of shape
  \<^verbatim>\<open>self.output_shape\<close> and their gradients, all zero and of the element type of
  \<^verbatim>\<open>bottom[0]\<close>.
\<close>

definition innerproduct_setup ::
  "layer \<Rightarrow> string list \<Rightarrow> string list \<Rightarrow> store \<Rightarrow> error + layer \<times> store" where
  "innerproduct_setup l bottom top' st =
     (if length bottom = 1 \<and> length top' = 1 then
        bind (getitem st (top' ! 0)) (\<lambda>atop.
        bind (getattr l ''output_shape'') (\<lambda>ov.
        bind (as_shape ov) (\<lambda>os.
        (let st1 = setitem (top' ! 0) (resize os atop) st in
         bind (getitem st1 (bottom ! 0)) (\<lambda>ab.
         (let w = zeros (dtype ab) (shape ab @ os);
              b = zeros (dtype ab) os;
              p = setitem ''b'' b (setitem ''w'' w (prms l));
              g = setitem ''b'' (zeros (dtype b) (shape b))
                    (setitem ''w'' (zeros (dtype w) (shape w)) (grad l))
          in Inr (l\<lparr>grad := g, prms := p\<rparr>, st1)))))))
      else Inl AssertionError)"

text \<open>
  \<^verbatim>\<open>top[0][...] = np.tensordot(bottom[0], self.prms_['w']) + self.prms_['b']\<close>
\<close>

definition innerproduct_forward ::
  "layer \<Rightarrow> string list \<Rightarrow> string list \<Rightarrow> store \<Rightarrow> error + store" where
  "innerproduct_forward l bottom top' st =
     bind (nth_err bottom 0) (\<lambda>b0.
     bind (getitem st b0) (\<lambda>ab.
     bind (getitem (prms l) ''w'') (\<lambda>w.
     bind (tensordot ab w) (\<lambda>td.
     bind (getitem (prms l) ''b'') (\<lambda>b.
     bind (plus_arrays td b) (\<lambda>y.
     bind (nth_err top' 0) (\<lambda>t0.
     bind (getitem st t0) (\<lambda>atop.
     bind (assign atop y) (\<lambda>r.
     Inr (setitem t0 r st))))))))))"

text \<open>
  \<^verbatim>\<open>InnerProduct.backward\<close>, statement by statement:
  \<^verbatim>\<open>botgrad[0][...] = np.dot(topgrad[0], np.transpose(self.grad_['w']))\<close>,
  \<^verbatim>\<open>self.grad_['w'][...] = np.dot(topgrad[0].transpose(), bottom[0]).transpose()\<close>,
  \<^verbatim>\<open>self.grad_['b'][...] = np.sum(topgrad[0], axis=0)\<close>.
\<close>

definition innerproduct_backward ::
  "layer \<Rightarrow> string list \<Rightarrow> string list \<Rightarrow> string list \<Rightarrow> string list \<Rightarrow> store \<Rightarrow> store
     \<Rightarrow> error + layer \<times> store" where
  "innerproduct_backward l bottom top' botgrad topgrad vals df =
     bind (nth_err topgrad 0) (\<lambda>dt0.
     bind (getitem df dt0) (\<lambda>adt.
     bind (getitem (grad l) ''w'') (\<lambda>gw.
     bind (dot adt (transpose_array gw)) (\<lambda>g.
     bind (nth_err botgrad 0) (\<lambda>db0.
     bind (getitem df db0) (\<lambda>adb.
     bind (assign adb g) (\<lambda>r.
     (let df1 = setitem db0 r df in
      bind (getitem df1 dt0) (\<lambda>adt1.
      bind (nth_err bottom 0) (\<lambda>b0.
      bind (getitem vals b0) (\<lambda>ab.
      bind (dot (transpose_array adt1) ab) (\<lambda>dw.
      bind (getitem (grad l) ''w'') (\<lambda>gw0.
      bind (assign gw0 (transpose_array dw)) (\<lambda>gw1.
      (let l1 = l\<lparr>grad := setitem ''w'' gw1 (grad l)\<rparr> in
       bind (sum_axis0 adt1) (\<lambda>sb.
       bind (getitem (grad l1) ''b'') (\<lambda>gb0.
       bind (assign gb0 sb) (\<lambda>gb1.
       Inr (l1\<lparr>grad := setitem ''b'' gb1 (grad l1)\<rparr>, df1)))))))))))))))))))"

text \<open>
  \<^verbatim>\<open>SoftMax.setup\<close> asserts one bottom and one top and then reads
  \<^verbatim>\<open>bottom[0].output_shape\<close>, which no array has; \<^verbatim>\<open>SoftMax.forward\<close> reads
  \<^verbatim>\<open>bottom.shape\<close> of the list it is given. Both raise AttributeError.
\<close>

definition softmax_setup :: "string list \<Rightarrow> string list \<Rightarrow> store \<Rightarrow> error + store" where
  "softmax_setup bottom top' st =
     (if length bottom = 1 \<and> length top' = 1 then Inl AttributeError else Inl AssertionError)"

definition softmax_forward :: "string list \<Rightarrow> string list \<Rightarrow> store \<Rightarrow> error + store" where
  "softmax_forward bottom top' st = Inl AttributeError"

text \<open>
  Calling a method of a layer object. A keyword that \<^verbatim>\<open>__init__\<close> stored under the
  method's name hides the method, and a \<open>pyval\<close> cannot be called (TypeError); otherwise
  the class decides, \<^verbatim>\<open>BaseLayer\<close>'s own methods doing nothing.
\<close>

definition layer_setup ::
  "layer \<Rightarrow> string list \<Rightarrow> string list \<Rightarrow> store \<Rightarrow> error + layer \<times> store" where
  "layer_setup l bottom top' st =
     (if ''setup'' \<in> set (keys (attrs l)) then Inl TypeError
      else case cls l of
        BaseLayer \<Rightarrow> Inr (l, st)
      | ReLU \<Rightarrow> bind (resize_setup bottom top' st) (\<lambda>st'. Inr (l, st'))
      | Sigmoid \<Rightarrow> bind (resize_setup bottom top' st) (\<lambda>st'. Inr (l, st'))
      | InnerProduct \<Rightarrow> innerproduct_setup l bottom top' st
      | SoftMax \<Rightarrow> bind (softmax_setup bottom top' st) (\<lambda>st'. Inr (l, st')))"

definition layer_forward ::
  "layer \<Rightarrow> string list \<Rightarrow> string list \<Rightarrow> store \<Rightarrow> error + store" where
  "layer_forward l bottom top' st =
     (if ''forward'' \<in> set (keys (attrs l)) then Inl TypeError
      else case cls l of
        BaseLayer \<Rightarrow> Inr st
      | ReLU \<Rightarrow> relu_forward bottom top' st
      | Sigmoid \<Rightarrow> sigmoid_forward l bottom top' st
      | InnerProduct \<Rightarrow> innerproduct_forward l bottom top' st
      | SoftMax \<Rightarrow> softmax_forward bottom top' st)"

definition layer_backward ::
  "layer \<Rightarrow> string list \<Rightarrow> string list \<Rightarrow> string list \<Rightarrow> string list \<Rightarrow> store \<Rightarrow> store
     \<Rightarrow> error + layer \<times> store" where
  "layer_backward l bottom top' botgrad topgrad vals df =
     (if ''backward'' \<in> set (keys (attrs l)) then Inl TypeError
      else case cls l of
        BaseLayer \<Rightarrow> Inr (l, df)
      | ReLU \<Rightarrow> bind (relu_backward bottom top' botgrad topgrad vals df) (\<lambda>df'. Inr (l, df'))
      | Sigmoid \<Rightarrow> bind (sigmoid_backward l bottom top' botgrad topgrad vals df) (\<lambda>df'. Inr (l, df'))
      | InnerProduct \<Rightarrow> innerproduct_backward l bottom top' botgrad topgrad vals df
      | SoftMax \<Rightarrow> Inr (l, df))"

section \<open>The network\<close>

text \<open>
  A registered entry \<^verbatim>\<open>(layer_name, layer_instance, input_blobs, output_blobs)\<close> holds a
  reference to its layer object; \<open>objs\<close> gives the object behind each reference, so
  that one object registered twice is one object. \<^verbatim>\<open>_blobs\<close> and \<^verbatim>\<open>_diffs\<close> are the
  two stores, \<^verbatim>\<open>_blob_history\<close> the stack of snapshots, newest last.
\<close>

type_synonym entry = "string \<times> nat \<times> string list \<times> string list"

record network =
  layers :: "entry list"
  objs :: "nat \<Rightarrow> layer"
  blobs :: store
  diffs :: store
  blob_history :: "store list"

text \<open>\<^verbatim>\<open>Network()\<close> over the layer objects \<open>h\<close>.\<close>

definition network_init :: "(nat \<Rightarrow> layer) \<Rightarrow> network" where
  "network_init h = \<lparr>layers = [], objs = h, blobs = [], diffs = [], blob_history = []\<rparr>"

text \<open>The inputs and outputs of \<^verbatim>\<open>addLayer\<close>: a list of names, or one name.\<close>

datatype names_arg = Name string | Names "string list"

fun as_list :: "names_arg \<Rightarrow> string list" where
  "as_list (Name n) = [n]"
| "as_list (Names ns) = ns"

definition addLayer :: "string \<Rightarrow> nat \<Rightarrow> names_arg \<Rightarrow> names_arg \<Rightarrow> network \<Rightarrow> network" where
  "addLayer layer_name layer_instance input_blobs output_blobs s =
     s\<lparr>layers := layers s @ [(layer_name, layer_instance, as_list input_blobs, as_list output_blobs)]\<rparr>"

text \<open>\<^verbatim>\<open>[self._blobs[n] for n in names]\<close>: KeyError on a name that is not there.\<close>

definition get_arrays :: "store \<Rightarrow> string list \<Rightarrow> error + ndarray list" where
  "get_arrays st names = mapM (getitem st) names"

subsection \<open>\<^verbatim>\<open>setup\<close>\<close>







subsection \<open>\<^verbatim>\<open>forward1\<close> and \<^verbatim>\<open>backward1\<close>\<close>

text \<open>\<^verbatim>\<open>for n in kwargs: store[n][...] = kwargs[n]\<close>\<close>

definition assign_all :: "store \<Rightarrow> store \<Rightarrow> error + store" where
  "assign_all kwargs st =
     foldM (\<lambda>(n, a) st. bind (getitem st n) (\<lambda>dst. bind (assign dst a) (\<lambda>r. Inr (setitem n r st))))
       kwargs st"

fun forward_layers :: "entry list \<Rightarrow> (nat \<Rightarrow> layer) \<Rightarrow> store \<Rightarrow> error + store" where
  "forward_layers [] h st = Inr st"
| "forward_layers ((n, l, i, o') # es) h st =
     bind (get_arrays st i) (\<lambda>_.
     bind (get_arrays st o') (\<lambda>_.
     bind (layer_forward (h l) i o' st) (\<lambda>st'.
     forward_layers es h st')))"

definition forward1 :: "store \<Rightarrow> network \<Rightarrow> error + network" where
  "forward1 kwargs s =
     (if ''self'' \<in> set (keys kwargs) then Inl TypeError
      else bind (assign_all kwargs (blobs s)) (\<lambda>st.
           bind (forward_layers (layers s) (objs s) st) (\<lambda>st'.
           Inr (s\<lparr>blobs := st'\<rparr>))))"



subsection \<open>Snapshots\<close>

text \<open>
  \<^verbatim>\<open>self._blob_history.append(copy.deepcopy(self._blobs))\<close>: the copy shares nothing
  with the arrays it was taken from, which is what a value of the store is.
  \<^verbatim>\<open>self._blobs = self._blob_history.pop()\<close> raises IndexError on an empty list.
\<close>

definition pushState :: "network \<Rightarrow> network" where
  "pushState s = s\<lparr>blob_history := blob_history s @ [blobs s]\<rparr>"

definition popState :: "network \<Rightarrow> error + network" where
  "popState s =
     (if blob_history s = [] then Inl IndexError
      else Inr (s\<lparr>blobs := last (blob_history s), blob_history := butlast (blob_history s)\<rparr>))"

subsection \<open>Aggregation over the entries\<close>

text \<open>
  The four accessors share one loop: \<^verbatim>\<open>r[n] = x\<close> for a name seen first, and for a
  name seen again \<^verbatim>\<open>g = x\<close>, \<^verbatim>\<open>assert set(g.keys()) == set(m.keys())\<close> and the summing
  loop \<^verbatim>\<open>for m in g: r[n][m] += g[m]\<close>. The local variable \<^verbatim>\<open>m\<close> is bound by that
  \<^verbatim>\<open>for\<close> only, to a key, which is a string: in the assertion it is unbound
  (UnboundLocalError) or, were it bound, a string without \<^verbatim>\<open>keys\<close> (AttributeError).
  Every path through the assertion raises, so the summing loop is never reached and has
  no part in the model; \<open>m\<close> stays as it is.
\<close>

fun aggregate_dicts ::
  "(layer \<Rightarrow> ndarray dict) \<Rightarrow> (nat \<Rightarrow> layer) \<Rightarrow> entry list \<Rightarrow> ndarray dict dict \<Rightarrow> string option
     \<Rightarrow> error + ndarray dict dict" where
  "aggregate_dicts x h [] r m = Inr r"
| "aggregate_dicts x h ((n, l, i, o') # es) r m =
     (if n \<in> set (keys r) then
        (let g = x (h l) in
         case m of None \<Rightarrow> Inl UnboundLocalError | Some k \<Rightarrow> Inl AttributeError)
      else aggregate_dicts x h es (setitem n (x (h l)) r) m)"

definition network_gradient :: "network \<Rightarrow> error + ndarray dict dict" where
  "network_gradient s = aggregate_dicts layer_gradient (objs s) (layers s) [] None"

definition network_parameters :: "network \<Rightarrow> error + ndarray dict dict" where
  "network_parameters s = aggregate_dicts layer_parameters (objs s) (layers s) [] None"

text \<open>
  In the flat accessors \<open>x\<close> is the layer's \<^verbatim>\<open>flat_gradient\<close> or
  \<^verbatim>\<open>flat_parameters\<close>, which may itself raise; \<^verbatim>\<open>g\<close> is then an array, and
  \<^verbatim>\<open>g.keys()\<close>, evaluated first in the assertion, raises AttributeError.
\<close>

fun aggregate_flat ::
  "(layer \<Rightarrow> error + ndarray) \<Rightarrow> (nat \<Rightarrow> layer) \<Rightarrow> entry list \<Rightarrow> ndarray dict
     \<Rightarrow> error + ndarray dict" where
  "aggregate_flat x h [] r = Inr r"
| "aggregate_flat x h ((n, l, i, o') # es) r =
     (if n \<in> set (keys r) then bind (x (h l)) (\<lambda>g. Inl AttributeError)
      else bind (x (h l)) (\<lambda>v. aggregate_flat x h es (setitem n v r)))"

text \<open>\<^verbatim>\<open>np.concatenate( [r[n] for n in sorted(r.keys())], axis=0 )\<close>\<close>

definition concat_sorted :: "ndarray dict \<Rightarrow> error + ndarray" where
  "concat_sorted r = bind (mapM (getitem r) (sort (keys r))) concatenate"

definition network_flat_gradient :: "network \<Rightarrow> error + ndarray" where
  "network_flat_gradient s =
     bind (aggregate_flat layer_flat_gradient (objs s) (layers s) []) concat_sorted"

definition network_flat_parameters :: "network \<Rightarrow> error + ndarray" where
  "network_flat_parameters s =
     bind (aggregate_flat layer_flat_parameters (objs s) (layers s) []) concat_sorted"

section \<open>Example networks\<close>

text \<open>
  Two entries registered under the one name \<^verbatim>\<open>shared\<close>. In \<open>shared_same\<close> both
  layers have the parameter \<^verbatim>\<open>w\<close>, of the same shape; in \<open>shared_differing\<close> the
  second layer has \<^verbatim>\<open>b\<close> as well.
\<close>

definition layer_w :: "real list \<Rightarrow> layer" where
  "layer_w xs =
     \<lparr>cls = InnerProduct, attrs = [(''output_shape'', VTuple [VInt 2])],
      grad = [(''w'', farray [2] [0, 0])], prms = [(''w'', farray [2] xs)]\<rparr>"

definition layer_wb :: layer where
  "layer_wb =
     \<lparr>cls = InnerProduct, attrs = [(''output_shape'', VTuple [VInt 2])],
      grad = [(''w'', farray [2] [0, 0]), (''b'', farray [1] [0])],
      prms = [(''w'', farray [2] [10, 20]), (''b'', farray [1] [3])]\<rparr>"

definition shared_same :: network where
  "shared_same =
     addLayer ''shared'' 1 (Name ''y'') (Name ''z'')
       (addLayer ''shared'' 0 (Name ''x'') (Name ''y'')
          (network_init (\<lambda>k. if k = 0 then layer_w [1, 2] else layer_w [10, 20])))"

definition shared_differing :: network where
  "shared_differing =
     addLayer ''shared'' 1 (Name ''y'') (Name ''z'')
       (addLayer ''shared'' 0 (Name ''x'') (Name ''y'')
          (network_init (\<lambda>k. if k = 0 then layer_w [1, 2] else layer_wb)))"

text \<open>
  The chain \<open>A, B, C\<close> of three rectified-linear layers over the blobs \<^verbatim>\<open>x\<close>,
  \<^verbatim>\<open>y\<close>, \<^verbatim>\<open>z\<close>, \<^verbatim>\<open>u\<close>: as registered, as it is after \<^verbatim>\<open>setup\<close> with a
  two-element \<^verbatim>\<open>x\<close>, and as it is after a forward pass on \<open>x = [1, -2]\<close>.
\<close>

definition relu_layer :: layer where
  "relu_layer = \<lparr>cls = ReLU, attrs = [], grad = [], prms = []\<rparr>"

definition chain3 :: network where
  "chain3 =
     addLayer ''C'' 2 (Name ''z'') (Name ''u'')
       (addLayer ''B'' 1 (Name ''y'') (Name ''z'')
          (addLayer ''A'' 0 (Name ''x'') (Name ''y'') (network_init (\<lambda>k. relu_layer))))"

definition zeros4 :: store where
  "zeros4 = [(''x'', farray [2] [0, 0]), (''y'', farray [2] [0, 0]),
             (''z'', farray [2] [0, 0]), (''u'', farray [2] [0, 0])]"

definition chain3_ready :: network where
  "chain3_ready = chain3\<lparr>blobs := zeros4, diffs := zeros4\<rparr>"



text \<open>
  An inner-product layer with \<^verbatim>\<open>output_shape=1\<close> after \<^verbatim>\<open>setup\<close> on an input of
  shape \<open>(1, 1)\<close>, with its weight then set to \<open>5\<close>; the blobs hold the input \<open>2\<close>
  and the output \<open>10\<close> of its forward pass, and the upstream gradient is \<open>1\<close>.
\<close>

definition affine_fresh :: layer where
  "affine_fresh =
     \<lparr>cls = InnerProduct, attrs = [(''output_shape'', VTuple [VInt 1])], grad = [], prms = []\<rparr>"

definition affine_layer :: layer where
  "affine_layer =
     \<lparr>cls = InnerProduct, attrs = [(''output_shape'', VTuple [VInt 1])],
      grad = [(''w'', farray [1, 1, 1] [0]), (''b'', farray [1] [0])],
      prms = [(''w'', farray [1, 1, 1] [5]), (''b'', farray [1] [0])]\<rparr>"

definition affine_blobs :: store where
  "affine_blobs = [(''x'', farray [1, 1] [2]), (''y'', farray [1] [10])]"

definition affine_diffs :: store where
  "affine_diffs = [(''x'', farray [1, 1] [0]), (''y'', farray [1] [1])]"

text \<open>
  The same layer after \<^verbatim>\<open>setup\<close> on an input of shape \<open>(1, 2)\<close> that holds 64-bit
  integers: its parameters are integer arrays.
\<close>

definition affine_int :: layer where
  "affine_int =
     \<lparr>cls = InnerProduct, attrs = [(''output_shape'', VTuple [VInt 1])],
      grad = [(''w'', iarray [1, 2, 1] [0, 0]), (''b'', iarray [1] [0])],
      prms = [(''w'', iarray [1, 2, 1] [0, 0]), (''b'', iarray [1] [0])]\<rparr>"

section \<open>Dictionaries\<close>

lemma getitem_Some: "map_of d k = Some v \<Longrightarrow> getitem d k = Inr v"
  by (simp add: getitem_def)

lemma map_of_setitem: "map_of (setitem k v d) k' = (if k' = k then Some v else map_of d k')"
  by (simp add: setitem_def update_conv')

lemma keys_setitem_mem: "k \<in> set (keys d) \<Longrightarrow> keys (setitem k v d) = keys d"
  by (simp add: setitem_def keys_def update_keys)

lemma in_keys_map_of: "k \<in> set (keys d) \<Longrightarrow> \<exists>v. map_of d k = Some v"
  unfolding keys_def by (metis map_of_eq_None_iff not_Some_eq set_map)

section \<open>Broadcasting between equal shapes\<close>

lemma chunks_Suc: "chunks (Suc k) n xs = take n xs # chunks k n (drop n xs)"
proof -
  have "[0..<Suc k] = 0 # map Suc [0..<k]"
    by (simp add: upt_conv_Cons map_Suc_upt del: upt_Suc)
  then show ?thesis
    by (simp add: chunks_def comp_def add.commute del: upt_Suc)
qed

lemma concat_chunks: "length xs = k * n \<Longrightarrow> concat (chunks k n xs) = xs"
proof (induction k arbitrary: xs)
  case 0
  then show ?case by (simp add: chunks_def)
next
  case (Suc k)
  then have "length (drop n xs) = k * n" by simp
  from Suc.IH[OF this] show ?case by (simp add: chunks_Suc)
qed

lemma length_chunk:
  assumes "length xs = k * n" and "c \<in> set (chunks k n xs)"
  shows "length c = n"
proof -
  from assms(2) obtain i where i: "i < k" and c: "c = take n (drop (i * n) xs)"
    by (auto simp: chunks_def)
  from i have "Suc i * n \<le> k * n" by (intro mult_le_mono1) simp
  then have "n \<le> k * n - i * n" by simp
  with c assms(1) show ?thesis by simp
qed

lemma bcast_same: "length xs = prod_list d \<Longrightarrow> bcast d d xs = xs"
proof (induction d arbitrary: xs)
  case Nil
  then show ?case by simp
next
  case (Cons a d)
  have "map (bcast d d) (chunks a (prod_list d) xs) = chunks a (prod_list d) xs"
    by (rule map_idI) (use Cons length_chunk[of xs a "prod_list d"] in auto)
  with Cons.prems show ?case by (simp add: concat_chunks)
qed

lemma strip_ones_short: "length s \<le> n \<Longrightarrow> strip_ones n s = s"
  by (cases s) auto

lemma broadcast_to_same: "well_formed a \<Longrightarrow> broadcast_to (shape a) a = Inr (flat a)"
  by (simp add: broadcast_to_def strip_ones_short pad_shape_def list_all2_same bcast_same well_formed_def)

lemma assign_same_shape:
  "\<not> scalar dst \<Longrightarrow> well_formed src \<Longrightarrow> shape dst = shape src \<Longrightarrow>
   assign dst src = Inr (NDArray (dtype dst) (shape dst) (map (cast (dtype dst)) (flat src)) False)"
  using broadcast_to_same[of src] by (simp add: assign_def bind_def)

lemma map_cast_Float64: "map (cast Float64) xs = xs"
  by (induction xs) simp_all

lemma assign_same_shape_float:
  "\<not> scalar dst \<Longrightarrow> dtype dst = Float64 \<Longrightarrow> well_formed src \<Longrightarrow> shape dst = shape src \<Longrightarrow>
   assign dst src = Inr (NDArray Float64 (shape src) (flat src) False)"
  by (simp add: assign_same_shape map_cast_Float64)

lemma broadcast_shapes_same: "broadcast_shapes s s = Inr s"
  by (induction s) (simp_all add: bind_def)

lemma binop_same_shape:
  "well_formed a \<Longrightarrow> well_formed b \<Longrightarrow> shape b = shape a \<Longrightarrow>
   binop dt f a b = Inr (result dt (shape a) (map2 (\<lambda>x y. fit dt (f x y)) (flat a) (flat b)))"
  by (simp add: binop_def pad_shape_def broadcast_shapes_same bind_def bcast_same well_formed_def)

section \<open>The flat parameter vector of a layer\<close>

lemma slice_vec: "slice (vec dt xs) k kk = Inr (span xs k kk)"
  by (simp add: slice_def vec_def)

lemma flat_assign_exact:
  assumes "well_formed a" "length src = size_of a" "\<not> scalar a" "dtype a = Float64"
  shows "flat_assign a src = NDArray Float64 (shape a) src False"
proof (cases "src = []")
  case True
  with assms have "flat a = []" by (simp add: well_formed_def size_of_def)
  with True assms show ?thesis by (cases a) (simp add: flat_assign_def)
next
  case False
  have "map (\<lambda>i. cast Float64 (src ! (i mod length src))) [0..<length src] = src"
    by (rule nth_equalityI) simp_all
  with False assms show ?thesis by (simp add: flat_assign_def )
qed

lemma offset_cong: "(\<And>n. n \<in> set ns \<Longrightarrow> map_of d' n = map_of d n) \<Longrightarrow> offset d' ns i = offset d ns i"
  unfolding offset_def
  by (rule arg_cong[where f=sum_list], rule map_cong) (auto dest: in_set_takeD)

lemma set_flat_loop_spec:
  "distinct ns \<Longrightarrow> set ns \<subseteq> set (keys d) \<Longrightarrow>
   \<exists>d'. set_flat_loop ns (vec dt v) k d = Inr d' \<and> keys d' = keys d \<and>
        (\<forall>n. n \<notin> set ns \<longrightarrow> map_of d' n = map_of d n) \<and>
        (\<forall>i<length ns. map_of d' (ns ! i) =
            Some (flat_assign (the (map_of d (ns ! i)))
                    (span v (k + offset d ns i) (k + offset d ns (Suc i)))))"
proof (induction ns arbitrary: k d)
  case Nil
  then show ?case by simp
next
  case (Cons n ns)
  from Cons.prems obtain a where a: "map_of d n = Some a"
    using in_keys_map_of[of n d] by auto
  let ?kk = "k + size_of a"
  let ?d1 = "setitem n (flat_assign a (span v k ?kk)) d"
  have k1: "keys ?d1 = keys d" using Cons.prems by (simp add: keys_setitem_mem)
  have same: "\<And>m. m \<in> set ns \<Longrightarrow> map_of ?d1 m = map_of d m"
    using Cons.prems by (auto simp: map_of_setitem)
  from Cons.prems k1 have "distinct ns" "set ns \<subseteq> set (keys ?d1)" by auto
  from Cons.IH[OF this, of ?kk] obtain d' where
    run: "set_flat_loop ns (vec dt v) ?kk ?d1 = Inr d'" and kd: "keys d' = keys ?d1" and
    frame: "\<forall>m. m \<notin> set ns \<longrightarrow> map_of d' m = map_of ?d1 m" and
    upd: "\<forall>i<length ns. map_of d' (ns ! i) =
            Some (flat_assign (the (map_of ?d1 (ns ! i)))
                    (span v (?kk + offset ?d1 ns i) (?kk + offset ?d1 ns (Suc i))))"
    by blast
  have run': "set_flat_loop (n # ns) (vec dt v) k d = Inr d'"
    using a run by (simp add: getitem_Some Let_def slice_vec)
  have off1: "\<And>i. offset ?d1 ns i = offset d ns i"
    by (rule offset_cong) (rule same)
  have offS: "\<And>i. offset d (n # ns) (Suc i) = size_of a + offset d ns i"
    using a by (simp add: offset_def)
  have off0: "\<And>ms. offset d ms 0 = 0" by (simp add: offset_def)
  have upd': "map_of d' ((n # ns) ! i) =
            Some (flat_assign (the (map_of d ((n # ns) ! i)))
                    (span v (k + offset d (n # ns) i) (k + offset d (n # ns) (Suc i))))"
    if "i < length (n # ns)" for i
  proof (cases i)
    case 0
    have "n \<notin> set ns" using Cons.prems by simp
    with frame have "map_of d' n = map_of ?d1 n" by simp
    then show ?thesis using 0 a by (simp add: map_of_setitem offS off0)
  next
    case (Suc j)
    with that have j: "j < length ns" by simp
    then have "ns ! j \<in> set ns" by simp
    with upd j same show ?thesis
      using Suc by (simp add: off1 offS add.assoc)
  qed
  have frame': "\<forall>m. m \<notin> set (n # ns) \<longrightarrow> map_of d' m = map_of d m"
    using frame by (simp add: map_of_setitem)
  have kd': "keys d' = keys d" using kd k1 by simp
  show ?case
    by (rule exI[of _ d'], intro conjI allI impI, rule run', rule kd', rule frame'[rule_format],
        assumption, rule upd', assumption)
qed


lemma mapM_lookup:
  "set ns \<subseteq> set (keys d) \<Longrightarrow>
   mapM (\<lambda>n. case getitem d n of Inl e \<Rightarrow> Inl e | Inr a \<Rightarrow> Inr (f a)) ns =
     Inr (map (\<lambda>n. f (the (map_of d n))) ns)"
proof (induction ns)
  case Nil
  then show ?case by simp
next
  case (Cons n ns)
  then obtain a where "map_of d n = Some a" using in_keys_map_of[of n d] by auto
  with Cons show ?case by (simp add: getitem_Some)
qed

lemma concat_slices:
  "k + sum_list szs = length v \<Longrightarrow>
   concat (map (\<lambda>i. span v (k + sum_list (take i szs)) (k + sum_list (take (Suc i) szs)))
              [0..<length szs]) = drop k v"
proof (induction szs arbitrary: k)
  case Nil
  then show ?case by simp
next
  case (Cons s szs)
  have "[0..<length (s # szs)] = 0 # map Suc [0..<length szs]"
    by (simp add: upt_conv_Cons map_Suc_upt del: upt_Suc)
  then have "concat (map (\<lambda>i. span v (k + sum_list (take i (s # szs)))
                 (k + sum_list (take (Suc i) (s # szs)))) [0..<length (s # szs)])
     = span v k (k + s) @ concat (map (\<lambda>i. span v ((k + s) + sum_list (take i szs))
                 ((k + s) + sum_list (take (Suc i) szs))) [0..<length szs])"
    by (simp add: comp_def add.assoc)
  also have "\<dots> = span v k (k + s) @ drop (k + s) v"
    using Cons.IH[of "k + s"] Cons.prems by (simp add: add.assoc)
  also have "\<dots> = drop k v"
    by (simp add: span_def) (metis add.commute append_take_drop_id drop_drop)
  finally show ?case .
qed


lemma sum_list_map_insort:
  "sum_list (map f (insort x xs)) = f x + sum_list (map f xs)" for f :: "'a::linorder \<Rightarrow> nat"
  by (induction xs) simp_all

lemma sum_list_map_sort:
  "sum_list (map f (sort xs)) = sum_list (map f xs)" for f :: "'a::linorder \<Rightarrow> nat"
  by (induction xs) (simp_all add: sum_list_map_insort)

lemma sizes_sorted_keys:
  assumes "distinct (keys d)"
  shows "sum_list (map (\<lambda>n. size_of (the (map_of d n))) (sort (keys d))) =
         sum_list (map (size_of \<circ> snd) d)"
proof -
  have "map (\<lambda>n. size_of (the (map_of d n))) (keys d) = map (size_of \<circ> snd) d"
    using assms unfolding keys_def by (induction d) (auto simp: rev_image_eqI)
  then show ?thesis by (simp add: sum_list_map_sort)
qed

lemma offset_le_total: "offset d ns i \<le> sum_list (map (\<lambda>n. size_of (the (map_of d n))) ns)"
proof -
  have "sum_list (map (\<lambda>n. size_of (the (map_of d n))) ns) =
        offset d ns i + sum_list (map (\<lambda>n. size_of (the (map_of d n))) (drop i ns))"
    unfolding offset_def by (metis append_take_drop_id map_append sum_list_append)
  then show ?thesis by simp
qed

lemma offset_Suc: "i < length ns \<Longrightarrow> offset d ns (Suc i) = offset d ns i + size_of (the (map_of d (ns ! i)))"
  by (simp add: offset_def take_Suc_conv_app_nth)

lemma foldr_promote_Float64:
  "arrs \<noteq> [] \<Longrightarrow> list_all (\<lambda>a. dtype a = Float64) arrs \<Longrightarrow>
   foldr promote (map dtype arrs) Int64 = Float64"
  by (cases arrs) (simp_all add: promote_def)

text \<open>
  C6, as stated, fails: the parameters of an inner-product layer set up on an input of
  64-bit integers are integer arrays, the setter converts what it stores to the element
  type of the parameter, and \<open>[0.5, 1.5, 2.75]\<close> reads back as \<open>[0, 1, 2]\<close>.
\<close>

theorem flat_parameters_integer_parameters:
  "map_sum id fst
     (layer_setup affine_fresh [''x''] [''y''] [(''x'', iarray [1, 2] [0, 0]), (''y'', empty0)]) =
     Inr affine_int \<and>
   bind (layer_set_flat_parameters (farray [3] [0.5, 1.5, 2.75]) affine_int)
        layer_flat_parameters = Inr (iarray [3] [0, 1, 2])"
  by code_simp

text \<open>
  C6, amended. For a layer whose parameters are arrays of 64-bit floats, writing a
  vector \<open>xs\<close> of 64-bit floats through the \<^verbatim>\<open>flat_parameters\<close> setter and reading
  \<^verbatim>\<open>flat_parameters\<close> back gives \<open>xs\<close>, when \<open>xs\<close> has as many elements as the
  parameters together. The parameter whose name is \<open>i\<close>-th in sorted order keeps its
  shape and holds the slice of \<open>xs\<close> that starts where the parameters before it end and
  is as long as its element count.
\<close>

theorem flat_parameters_roundtrip:
  assumes dist: "distinct (keys (prms l))"
    and wf: "list_all (\<lambda>a. well_formed a \<and> \<not> scalar a \<and> dtype a = Float64) (map snd (prms l))"
    and len: "length xs = sum_list (map (size_of \<circ> snd) (prms l))"
  shows "\<exists>l'. layer_set_flat_parameters (vec Float64 xs) l = Inr l' \<and>
           layer_flat_parameters l' = Inr (vec Float64 xs) \<and>
           (\<forall>i<length (prms l).
              map_of (prms l') (sort (keys (prms l)) ! i) =
                Some (NDArray Float64 (shape (the (map_of (prms l) (sort (keys (prms l)) ! i))))
                        (span xs (offset (prms l) (sort (keys (prms l))) i)
                                 (offset (prms l) (sort (keys (prms l))) (Suc i))) False))"
proof -
  let ?d = "prms l"
  let ?ks = "sort (keys ?d)"
  have dks: "distinct ?ks" and sks: "set ?ks \<subseteq> set (keys ?d)" and lks: "length ?ks = length ?d"
    using dist by (simp_all add: keys_def)
  from set_flat_loop_spec[OF dks sks, of Float64 xs 0] obtain d' where
    run: "set_flat_loop ?ks (vec Float64 xs) 0 ?d = Inr d'" and kd: "keys d' = keys ?d" and
    upd: "\<forall>i<length ?ks. map_of d' (?ks ! i) =
            Some (flat_assign (the (map_of ?d (?ks ! i)))
                    (span xs (offset ?d ?ks i) (offset ?d ?ks (Suc i))))"
    by auto
  let ?l' = "l\<lparr>prms := d'\<rparr>"
  have set: "layer_set_flat_parameters (vec Float64 xs) l = Inr ?l'"
    using run by (simp add: layer_set_flat_parameters_def)
  have total: "sum_list (map (\<lambda>n. size_of (the (map_of ?d n))) ?ks) = length xs"
    using sizes_sorted_keys[OF dist] len by simp
  have exact: "map_of d' (?ks ! i) =
        Some (NDArray Float64 (shape (the (map_of ?d (?ks ! i))))
                (span xs (offset ?d ?ks i) (offset ?d ?ks (Suc i))) False)"
    if i: "i < length ?ks" for i
  proof -
    let ?a = "the (map_of ?d (?ks ! i))"
    have "?ks ! i \<in> set (keys ?d)" using i sks nth_mem by blast
    then obtain a where a: "map_of ?d (?ks ! i) = Some a" using in_keys_map_of by blast
    then have "a \<in> set (map snd ?d)" by (metis map_of_SomeD set_zip_rightD zip_map_fst_snd)
    with wf have wfa: "well_formed ?a" "\<not> scalar ?a" "dtype ?a = Float64"
      using a by (auto simp: list_all_iff)
    have "offset ?d ?ks (Suc i) \<le> length xs" using offset_le_total[of ?d ?ks "Suc i"] total by simp
    then have "length (span xs (offset ?d ?ks i) (offset ?d ?ks (Suc i))) = size_of ?a"
      using offset_Suc[OF i, of ?d] by (simp add: span_def)
    from flat_assign_exact[OF wfa(1) this wfa(2,3)] upd i show ?thesis by simp
  qed
  have get: "layer_flat_parameters ?l' = Inr (vec Float64 xs)"
  proof (cases "?d = []")
    case True
    with kd have "d' = []" by (simp add: keys_def)
    moreover from True len have "xs = []" by simp
    ultimately show ?thesis by (simp add: layer_flat_parameters_def empty0_def vec_def)
  next
    case False
    with kd have ne: "d' \<noteq> []" by (auto simp: keys_def)
    from False have kne: "?ks \<noteq> []" using lks by (metis length_0_conv)
    have fl: "map (\<lambda>n. flat (the (map_of d' n))) ?ks =
          map (\<lambda>i. span xs (0 + sum_list (take i (map (\<lambda>n. size_of (the (map_of ?d n))) ?ks)))
                 (0 + sum_list (take (Suc i) (map (\<lambda>n. size_of (the (map_of ?d n))) ?ks))))
              [0..<length (map (\<lambda>n. size_of (the (map_of ?d n))) ?ks)]"
      by (rule nth_equalityI) (simp_all add: exact offset_def take_map)
    then have "concat (map (\<lambda>n. flat (the (map_of d' n))) ?ks) = drop 0 xs"
      using concat_slices[of 0 "map (\<lambda>n. size_of (the (map_of ?d n))) ?ks" xs] total
      by simp
    then have cc: "concat (map (\<lambda>n. flat (the (map_of d' n))) ?ks) = xs" by simp
    have dts: "dtype (the (map_of d' n)) = Float64" if "n \<in> set ?ks" for n
    proof -
      from that obtain i where "i < length ?ks" "?ks ! i = n" by (metis in_set_conv_nth)
      with exact[of i] show ?thesis by auto
    qed
    let ?arrs = "map (\<lambda>n. ravel (the (map_of d' n))) ?ks"
    have m: "mapM (\<lambda>n. case getitem d' n of Inl e \<Rightarrow> Inl e | Inr a \<Rightarrow> Inr (ravel a)) ?ks =
          Inr ?arrs"
      by (rule mapM_lookup) (use sks kd in simp)
    have oned: "\<not> list_ex (\<lambda>a. length (shape a) \<noteq> 1) ?arrs"
      by (simp add: list_ex_iff ravel_def vec_def)
    have "list_all (\<lambda>a. dtype a = Float64) ?arrs"
      using dts by (simp add: list_all_iff ravel_def vec_def)
    with kne have dt: "foldr promote (map dtype ?arrs) Int64 = Float64"
      by (intro foldr_promote_Float64) simp_all
    have "concat (map flat ?arrs) = xs"
      using cc by (simp add: comp_def ravel_def vec_def)
    with m oned dt kne ne kd show ?thesis
      by (simp add: layer_flat_parameters_def concatenate_def)
  qed
  show ?thesis
    by (rule exI[of _ ?l'], intro conjI allI impI, rule set, rule get)
       (use exact lks in simp)
qed

theorem flat_parameters_roundtrip_witness:
  "layer_set_flat_parameters (vec Float64 [Fin 1, Fin 2, Fin 3])
     \<lparr>cls = InnerProduct, attrs = [],
      grad = [], prms = [(''w'', farray [1, 2] [0, 0]), (''b'', farray [1] [0])]\<rparr> =
   Inr \<lparr>cls = InnerProduct, attrs = [],
        grad = [], prms = [(''w'', farray [1, 2] [2, 3]), (''b'', farray [1] [1])]\<rparr> \<and>
   layer_flat_parameters
     \<lparr>cls = InnerProduct, attrs = [],
      grad = [], prms = [(''w'', farray [1, 2] [2, 3]), (''b'', farray [1] [1])]\<rparr> =
   Inr (vec Float64 [Fin 1, Fin 2, Fin 3])"
proof -
  let ?l = "\<lparr>cls = InnerProduct, attrs = [],
      grad = [], prms = [(''w'', farray [1, 2] [0, 0]), (''b'', farray [1] [0])]\<rparr>"
  let ?l' = "\<lparr>cls = InnerProduct, attrs = [],
      grad = [], prms = [(''w'', farray [1, 2] [2, 3]), (''b'', farray [1] [1])]\<rparr>"
  have run: "layer_set_flat_parameters (vec Float64 [Fin 1, Fin 2, Fin 3]) ?l = Inr ?l'"
    by code_simp
  have "distinct (keys (prms ?l))"
       "list_all (\<lambda>a. well_formed a \<and> \<not> scalar a \<and> dtype a = Float64) (map snd (prms ?l))"
       "length [Fin 1, Fin 2, Fin 3] = sum_list (map (size_of \<circ> snd) (prms ?l))"
    by (simp_all add: keys_def well_formed_def size_of_def farray_def)
  from flat_parameters_roundtrip[OF this] run show ?thesis
    by auto
qed

section \<open>Layers without gradients\<close>

lemma aggregate_flat_Inr:
  "aggregate_flat x h es r = Inr r' \<Longrightarrow> (n, l, i, o') \<in> set es \<Longrightarrow> \<exists>v. x (h l) = Inr v"
proof (induction es arbitrary: r)
  case Nil
  then show ?case by simp
next
  case (Cons e es)
  obtain n1 l1 i1 o1 where e: "e = (n1, l1, i1, o1)" by (cases e) auto
  show ?case
  proof (cases "x (h l1)")
    case (Inl err)
    with Cons.prems e show ?thesis by (simp add: bind_def split: if_splits)
  next
    case (Inr v)
    show ?thesis
    proof (cases "(n, l, i, o') = e")
      case True
      with e Inr show ?thesis by auto
    next
      case False
      with Cons.prems have mem: "(n, l, i, o') \<in> set es" by simp
      from Cons.prems(1) e Inr have "aggregate_flat x h es (setitem n1 v r) = Inr r'"
        by (simp add: bind_def split: if_splits)
      from Cons.IH[OF this mem] show ?thesis .
    qed
  qed
qed

text \<open>
  C10. A layer whose gradient dictionary is empty cannot be flattened: reading
  \<^verbatim>\<open>flat_gradient\<close> raises (numpy's ValueError for an empty list of arrays), and so
  does the network's \<^verbatim>\<open>flat_gradient\<close> as soon as one registered layer is such a
  layer; \<^verbatim>\<open>flat_parameters\<close> of a layer without parameters is the one-dimensional
  array of length 0.
\<close>

theorem flat_gradient_without_gradients:
  "(grad l = [] \<longrightarrow> layer_flat_gradient l = Inl ValueError) \<and>
   (prms l = [] \<longrightarrow> layer_flat_parameters l = Inr (NDArray Float64 [0] [] False)) \<and>
   ((n, lid, i, o') \<in> set (layers s) \<and> grad (objs s lid) = [] \<longrightarrow>
      (\<exists>e. network_flat_gradient s = Inl e))"
proof (intro conjI impI)
  assume "grad l = []"
  then show "layer_flat_gradient l = Inl ValueError"
    by (simp add: layer_flat_gradient_def keys_def concatenate_def)
next
  assume "prms l = []"
  then show "layer_flat_parameters l = Inr (NDArray Float64 [0] [] False)"
    by (simp add: layer_flat_parameters_def empty0_def)
next
  assume a: "(n, lid, i, o') \<in> set (layers s) \<and> grad (objs s lid) = []"
  then have fails: "layer_flat_gradient (objs s lid) = Inl ValueError"
    by (simp add: layer_flat_gradient_def keys_def concatenate_def)
  show "\<exists>e. network_flat_gradient s = Inl e"
  proof (cases "aggregate_flat layer_flat_gradient (objs s) (layers s) []")
    case (Inl e)
    then show ?thesis by (simp add: network_flat_gradient_def bind_def)
  next
    case (Inr r)
    from aggregate_flat_Inr[OF Inr] a fails show ?thesis by fastforce
  qed
qed

theorem flat_gradient_without_gradients_witness:
  "layer_flat_gradient \<lparr>cls = ReLU, attrs = [], grad = [], prms = []\<rparr> = Inl ValueError \<and>
   layer_flat_parameters \<lparr>cls = ReLU, attrs = [], grad = [], prms = []\<rparr> = Inr (NDArray Float64 [0] [] False) \<and>
   (\<exists>e. network_flat_gradient
          \<lparr>layers = [(''ip'', 0, [''x''], [''y'']), (''relu'', 1, [''y''], [''z''])],
           objs = (\<lambda>k. if k = 0
                     then \<lparr>cls = InnerProduct, attrs = [],
                           grad = [(''w'', farray [1] [0])], prms = [(''w'', farray [1] [0])]\<rparr>
                     else \<lparr>cls = ReLU, attrs = [], grad = [], prms = []\<rparr>),
           blobs = [], diffs = [], blob_history = []\<rparr> = Inl e)"
  using flat_gradient_without_gradients[of "\<lparr>cls = ReLU, attrs = [], grad = [], prms = []\<rparr>"
      "''relu''" 1 "[''y'']" "[''z'']"
      "\<lparr>layers = [(''ip'', 0, [''x''], [''y'']), (''relu'', 1, [''y''], [''z''])],
           objs = (\<lambda>k. if k = 0
                     then \<lparr>cls = InnerProduct, attrs = [],
                           grad = [(''w'', farray [1] [0])], prms = [(''w'', farray [1] [0])]\<rparr>
                     else \<lparr>cls = ReLU, attrs = [], grad = [], prms = []\<rparr>),
           blobs = [], diffs = [], blob_history = []\<rparr>"]
  by simp

section \<open>Aggregation by entry name\<close>

lemma setitem_new: "k \<notin> set (keys d) \<Longrightarrow> setitem k v d = d @ [(k, v)]"
  unfolding keys_def setitem_def by (induction d) auto

text \<open>
  With \<open>m\<close> unbound, the loop gets through exactly when no name repeats, and then the
  result holds each layer's own dictionary under its entry's name.
\<close>

lemma aggregate_dicts_unbound:
  "aggregate_dicts x h es r None =
     (if distinct (map fst es) \<and> set (map fst es) \<inter> set (keys r) = {}
      then Inr (r @ map (\<lambda>(n, l, i, o'). (n, x (h l))) es)
      else Inl UnboundLocalError)"
proof (induction es arbitrary: r)
  case Nil
  then show ?case by simp
next
  case (Cons e es)
  obtain n l i o' where e: "e = (n, l, i, o')" by (cases e) auto
  show ?case
  proof (cases "n \<in> set (keys r)")
    case True
    with e show ?thesis by auto
  next
    case False
    then have upd: "setitem n (x (h l)) r = r @ [(n, x (h l))]" by (rule setitem_new)
    have k: "keys (r @ [(n, x (h l))]) = keys r @ [n]" by (simp add: keys_def)
    show ?thesis using False e by (auto simp: Cons.IH upd k)
  qed
qed

lemma network_parameters_distinct:
  "distinct (map fst (layers s)) \<Longrightarrow>
   network_parameters s = Inr (map (\<lambda>(n, l, i, o'). (n, prms (objs s l))) (layers s))"
  by (simp add: network_parameters_def aggregate_dicts_unbound layer_parameters_def keys_def)

lemma network_parameters_repeated:
  "\<not> distinct (map fst (layers s)) \<Longrightarrow> network_parameters s = Inl UnboundLocalError"
  by (simp add: network_parameters_def aggregate_dicts_unbound)

lemma network_gradient_repeated:
  "\<not> distinct (map fst (layers s)) \<Longrightarrow> network_gradient s = Inl UnboundLocalError"
  by (simp add: network_gradient_def aggregate_dicts_unbound)

text \<open>
  C1. Two entries named \<^verbatim>\<open>shared\<close> whose layers both have the parameter \<^verbatim>\<open>w\<close> of
  shape \<open>(2,)\<close>: the claim has \<^verbatim>\<open>parameters\<close> return the sum under \<^verbatim>\<open>shared\<close>. The
  accessor raises UnboundLocalError instead: the assertion reads \<^verbatim>\<open>m\<close> before the
  loop that binds it.
\<close>

theorem network_parameters_shared_name:
  "network_parameters shared_same = Inl UnboundLocalError"
  by code_simp

lemma mapM_Inl: "mapM f xs = Inl e \<Longrightarrow> \<exists>x \<in> set xs. f x = Inl e"
  by (induction xs) (auto split: sum.splits)

lemma layer_flat_gradient_errors:
  "layer_flat_gradient l = Inl e \<Longrightarrow> e = KeyError \<or> e = ValueError"
  by (auto simp: layer_flat_gradient_def concatenate_def getitem_def
           split: sum.splits if_splits option.splits dest!: mapM_Inl)

lemma layer_flat_parameters_errors:
  "layer_flat_parameters l = Inl e \<Longrightarrow> e = KeyError \<or> e = ValueError"
  by (auto simp: layer_flat_parameters_def concatenate_def getitem_def
           split: sum.splits if_splits option.splits dest!: mapM_Inl)

lemma concat_sorted_errors: "concat_sorted r = Inl e \<Longrightarrow> e = KeyError \<or> e = ValueError"
  by (auto simp: concat_sorted_def bind_def concatenate_def getitem_def
           split: sum.splits if_splits option.splits dest!: mapM_Inl)

lemma aggregate_flat_errors:
  "aggregate_flat x h es r = Inl e \<Longrightarrow> e = AttributeError \<or> (\<exists>l. x l = Inl e)"
proof (induction es arbitrary: r)
  case Nil
  then show ?case by simp
next
  case (Cons p es)
  obtain n l i o' where p: "p = (n, l, i, o')" by (cases p) auto
  from Cons show ?case unfolding p
    by (auto simp: bind_def split: if_splits sum.splits)
qed

text \<open>No accessor ever fails on the assertion itself.\<close>

lemma aggregation_never_asserts:
  "network_parameters s \<noteq> Inl AssertionError \<and> network_gradient s \<noteq> Inl AssertionError \<and>
   network_flat_parameters s \<noteq> Inl AssertionError \<and>
   network_flat_gradient s \<noteq> Inl AssertionError"
proof (intro conjI)
  show "network_parameters s \<noteq> Inl AssertionError"
    by (simp add: network_parameters_def aggregate_dicts_unbound)
  show "network_gradient s \<noteq> Inl AssertionError"
    by (simp add: network_gradient_def aggregate_dicts_unbound)
  show "network_flat_parameters s \<noteq> Inl AssertionError"
    by (auto simp: network_flat_parameters_def bind_def split: sum.splits
             dest!: aggregate_flat_errors concat_sorted_errors layer_flat_parameters_errors)
  show "network_flat_gradient s \<noteq> Inl AssertionError"
    by (auto simp: network_flat_gradient_def bind_def split: sum.splits
             dest!: aggregate_flat_errors concat_sorted_errors layer_flat_gradient_errors)
qed

text \<open>
  C5. Two entries named \<^verbatim>\<open>shared\<close> whose layers have the key sets \<open>{w}\<close> and
  \<open>{w, b}\<close>: the claim has the four accessors fail on the assertion that compares the
  key sets. None of them gets to compare anything: \<^verbatim>\<open>parameters\<close> and \<^verbatim>\<open>gradient\<close>
  raise UnboundLocalError on \<^verbatim>\<open>m\<close>, the flat variants AttributeError on
  \<^verbatim>\<open>g.keys()\<close> of an array.
\<close>

theorem aggregation_differing_keys:
  "network_parameters shared_differing = Inl UnboundLocalError \<and>
   network_gradient shared_differing = Inl UnboundLocalError \<and>
   network_flat_parameters shared_differing = Inl AttributeError \<and>
   network_flat_gradient shared_differing = Inl AttributeError"
  by code_simp

section \<open>Snapshots of the blobs\<close>

lemma forward1_frame: "forward1 kwargs s = Inr s' \<Longrightarrow> s' = s\<lparr>blobs := blobs s'\<rparr>"
  by (auto simp: forward1_def bind_def split: sum.splits if_splits)

lemma popState_pushed:
  "blob_history s1 = blob_history s @ [b] \<Longrightarrow>
   popState s1 = Inr (s1\<lparr>blobs := b, blob_history := blob_history s\<rparr>)"
  by (simp add: popState_def)

lemma push_forward_pop:
  assumes "forward1 kwargs (pushState s) = Inr s1"
  shows "popState s1 = Inr s"
proof -
  from forward1_frame[OF assms] have s1: "s1 = (pushState s)\<lparr>blobs := blobs s1\<rparr>" .
  then have "blob_history s1 = blob_history s @ [blobs s]"
    by (metis (no_types) network.select_convs(5) network.surjective network.update_convs(3,5) pushState_def)
  from popState_pushed[OF this] have "popState s1 = Inr (s1\<lparr>blobs := blobs s, blob_history := blob_history s\<rparr>)" .
  also have "s1\<lparr>blobs := blobs s, blob_history := blob_history s\<rparr> = s"
    by (subst s1) (simp add: pushState_def)
  finally show ?thesis .
qed

text \<open>
  C4. After \<^verbatim>\<open>pushState\<close> and a \<^verbatim>\<open>forward1\<close> that changes the blobs, \<^verbatim>\<open>popState\<close>
  gives back the network as it was at the push: the blobs with their values of then,
  and the gradients, the layer objects (hence their parameters) and the older
  snapshots untouched. Snapshots come back last in, first out: after two pushes the
  first pop returns to the second push, the next pop to the first.
\<close>

theorem pushState_popState:
  assumes "forward1 kw1 (pushState s) = Inr s1" and "forward1 kw2 (pushState s1) = Inr s2"
  shows "popState s2 = Inr s1 \<and> popState s1 = Inr s \<and>
         diffs s1 = diffs s \<and> objs s1 = objs s \<and> blob_history s2 = blob_history s @ [blobs s, blobs s1]"
proof -
  have a: "popState s2 = Inr s1" using assms(2) by (rule push_forward_pop)
  have b: "popState s1 = Inr s" using assms(1) by (rule push_forward_pop)
  from forward1_frame[OF assms(1)] have s1: "s1 = (pushState s)\<lparr>blobs := blobs s1\<rparr>" .
  from forward1_frame[OF assms(2)] have s2: "s2 = (pushState s1)\<lparr>blobs := blobs s2\<rparr>" .
  have c: "diffs s1 = diffs s" "objs s1 = objs s" "blob_history s1 = blob_history s @ [blobs s]"
    by (subst s1, simp add: pushState_def)+
  have d: "blob_history s2 = blob_history s1 @ [blobs s1]"
    by (subst s2) (simp add: pushState_def)
  from a b c d show ?thesis by simp
qed


lemma forward1_eq:
  "''self'' \<notin> set (keys kwargs) \<Longrightarrow>
   bind (assign_all kwargs (blobs s)) (forward_layers (layers s) (objs s)) = Inr b \<Longrightarrow>
   forward1 kwargs s = Inr (s\<lparr>blobs := b\<rparr>)"
  by (auto simp: forward1_def bind_def split: sum.splits)

theorem pushState_popState_witness:
  "forward1 [(''x'', farray [2] [1, - 2])] (pushState chain3_ready) =
     Inr ((pushState chain3_ready)
           \<lparr>blobs := [(''x'', farray [2] [1, - 2]), (''y'', farray [2] [1, 0]),
                      (''z'', farray [2] [1, 0]), (''u'', farray [2] [1, 0])]\<rparr>) \<and>
   popState ((pushState chain3_ready)
           \<lparr>blobs := [(''x'', farray [2] [1, - 2]), (''y'', farray [2] [1, 0]),
                      (''z'', farray [2] [1, 0]), (''u'', farray [2] [1, 0])]\<rparr>) =
     Inr chain3_ready"
proof -
  let ?b1 = "[(''x'', farray [2] [1, - 2]), (''y'', farray [2] [1, 0]),
              (''z'', farray [2] [1, 0]), (''u'', farray [2] [1, 0])]"
  let ?b2 = "[(''x'', farray [2] [3, 4]), (''y'', farray [2] [3, 4]),
              (''z'', farray [2] [3, 4]), (''u'', farray [2] [3, 4])]"
  let ?s1 = "(pushState chain3_ready)\<lparr>blobs := ?b1\<rparr>"
  have "bind (assign_all [(''x'', farray [2] [1, - 2])] (blobs (pushState chain3_ready)))
          (forward_layers (layers (pushState chain3_ready)) (objs (pushState chain3_ready))) =
        Inr ?b1"
    by code_simp
  then have h1: "forward1 [(''x'', farray [2] [1, - 2])] (pushState chain3_ready) = Inr ?s1"
    by (intro forward1_eq) (simp_all add: keys_def)
  have "bind (assign_all [(''x'', farray [2] [3, 4])] (blobs (pushState ?s1)))
          (forward_layers (layers (pushState ?s1)) (objs (pushState ?s1))) = Inr ?b2"
    by code_simp
  then have h2: "forward1 [(''x'', farray [2] [3, 4])] (pushState ?s1) =
      Inr ((pushState ?s1)\<lparr>blobs := ?b2\<rparr>)"
    by (intro forward1_eq) (simp_all add: keys_def)
  from pushState_popState[OF h1 h2] h1 show ?thesis by simp
qed

section \<open>The rectified-linear layer\<close>

lemma mul_one: "mul d (Fin 1) = d"
  by (cases d) simp_all

lemma mul_zero_finite: "is_finite d \<Longrightarrow> mul d (Fin 0) = Fin 0"
  by (cases d) simp_all

lemma gt0_maxn: "gt0 (maxn v (Fin 0)) = gt0 v"
  by (cases v) (simp_all add: max_def)

lemma relu_forward_single:
  assumes "map_of vals b = Some x" and "map_of vals t = Some y"
    and "well_formed x" and "shape y = shape x" and "dtype x = Float64"
    and "dtype y = Float64" and "\<not> scalar y"
  shows "relu_forward [b] [t] vals =
     Inr (setitem t (NDArray Float64 (shape x) (map (\<lambda>v. maxn v (Fin 0)) (flat x)) False) vals)"
proof -
  have m: "maximum0 x = result Float64 (shape x) (map (\<lambda>v. maxn v (Fin 0)) (flat x))"
    using assms by (simp add: maximum0_def map_array_def fit_def)
  have "assign y (maximum0 x) =
        Inr (NDArray Float64 (shape (maximum0 x)) (flat (maximum0 x)) False)"
    using assms by (intro assign_same_shape_float) (simp_all add: m result_def well_formed_def)
  with assms m show ?thesis
    by (simp add: relu_forward_def bind_def getitem_Some result_def)
qed

lemma relu_backward_single:
  assumes "map_of vals t = Some y" and "map_of df dt = Some dy" and "map_of df db = Some gx"
    and "well_formed y" and "well_formed dy" and "shape dy = shape y" and "shape gx = shape y"
    and "dtype dy = Float64" and "dtype gx = Float64" and "\<not> scalar gx"
  shows "relu_backward [b] [t] [db] [dt] vals df =
     Inr (setitem db (NDArray Float64 (shape y)
            (map2 (\<lambda>d v. if gt0 v then d else mul d (Fin 0)) (flat dy) (flat y)) False) df)"
proof -
  let ?xs = "map2 (\<lambda>d v. if gt0 v then d else mul d (Fin 0)) (flat dy) (flat y)"
  have wfp: "well_formed (positive y)" and shp: "shape (positive y) = shape dy"
    using assms by (simp_all add: positive_def result_def well_formed_def)
  have "map2 (\<lambda>x y. fit Float64 (mul x y)) (flat dy)
          (map (\<lambda>x. if gt0 x then Fin 1 else Fin 0) (flat y)) = ?xs"
    by (auto simp: zip_map2 fit_def mul_one)
  then have g: "times dy (positive y) = Inr (result Float64 (shape y) ?xs)"
    using binop_same_shape[OF assms(5) wfp shp, of Float64 mul] assms
    by (simp add: times_def promote_def) (simp add: positive_def result_def)
  have "assign gx (result Float64 (shape y) ?xs) =
        Inr (NDArray Float64 (shape (result Float64 (shape y) ?xs))
               (flat (result Float64 (shape y) ?xs)) False)"
    using assms by (intro assign_same_shape_float) (simp_all add: result_def well_formed_def)
  with g assms show ?thesis
    by (simp add: relu_backward_def bind_def getitem_Some result_def)
qed

text \<open>
  C7, as stated, fails: where the input is not positive the claim has the bottom gradient
  \<open>0\<close>, and the code computes \<^verbatim>\<open>dt * (t>0)\<close>, which for an infinite upstream
  gradient is \<open>inf * 0\<close>, NaN.
\<close>

theorem relu_backward_infinite_gradient:
  "bind (relu_forward [''x''] [''y''] [(''x'', farray [1] [- 1]), (''y'', farray [1] [0])])
     (\<lambda>vals'. relu_backward [''x''] [''y''] [''x''] [''y''] vals'
                 [(''x'', farray [1] [0]), (''y'', NDArray Float64 [1] [PInf] False)]) =
   Inr [(''x'', NDArray Float64 [1] [NaN] False), (''y'', NDArray Float64 [1] [PInf] False)]"
  by code_simp

text \<open>
  C7, amended. All arrays holding 64-bit floats: for an input array \<open>x\<close> in the bottom
  blob and a top blob of the same shape, \<^verbatim>\<open>ReLU.forward\<close> leaves \<^verbatim>\<open>np.maximum(x, 0)\<close>,
  element by element, in the top blob. With that top blob and an upstream gradient \<open>dy\<close>
  of the same shape, \<^verbatim>\<open>ReLU.backward\<close> writes into the bottom gradient \<open>dy\<close> where
  \<open>x > 0\<close> and \<open>dy * 0\<close> elsewhere: that is \<open>0\<close> wherever \<open>dy\<close> is finite, so a finite
  \<open>dy\<close> gives \<open>dy\<close> where \<open>x > 0\<close> and \<open>0\<close> elsewhere. (Bottom and top may be one
  blob.)
\<close>

theorem relu_forward_backward:
  assumes "map_of vals b = Some x" and "map_of vals t = Some y"
    and "well_formed x" and "shape y = shape x"
    and "dtype x = Float64" and "dtype y = Float64" and "\<not> scalar y"
    and "map_of df db = Some gx" and "map_of df dt = Some dy"
    and "well_formed dy" and "shape dy = shape x" and "shape gx = shape x"
    and "dtype dy = Float64" and "dtype gx = Float64" and "\<not> scalar gx"
  shows "\<exists>vals' df'.
           relu_forward [b] [t] vals = Inr vals' \<and>
           map_of vals' t =
             Some (NDArray Float64 (shape x) (map (\<lambda>v. maxn v (Fin 0)) (flat x)) False) \<and>
           relu_backward [b] [t] [db] [dt] vals' df = Inr df' \<and>
           map_of df' db =
             Some (NDArray Float64 (shape x)
                     (map2 (\<lambda>d v. if gt0 v then d else mul d (Fin 0)) (flat dy) (flat x)) False) \<and>
           (list_all is_finite (flat dy) \<longrightarrow>
              map_of df' db =
                Some (NDArray Float64 (shape x)
                        (map2 (\<lambda>d v. if gt0 v then d else Fin 0) (flat dy) (flat x)) False))"
proof -
  let ?y = "NDArray Float64 (shape x) (map (\<lambda>v. maxn v (Fin 0)) (flat x)) False"
  let ?vals = "setitem t ?y vals"
  let ?g = "NDArray Float64 (shape x)
              (map2 (\<lambda>d v. if gt0 v then d else mul d (Fin 0)) (flat dy) (flat x)) False"
  have fwd: "relu_forward [b] [t] vals = Inr ?vals"
    using assms(1-7) by (rule relu_forward_single)
  have t: "map_of ?vals t = Some ?y" by (simp add: map_of_setitem)
  have "relu_backward [b] [t] [db] [dt] ?vals df =
     Inr (setitem db (NDArray Float64 (shape ?y)
            (map2 (\<lambda>d v. if gt0 v then d else mul d (Fin 0)) (flat dy) (flat ?y)) False) df)"
    using t assms(9,8) by (rule relu_backward_single)
      (use assms in \<open>simp_all add: well_formed_def\<close>)
  moreover have "map2 (\<lambda>d v. if gt0 v then d else mul d (Fin 0)) (flat dy) (flat ?y) =
        map2 (\<lambda>d v. if gt0 v then d else mul d (Fin 0)) (flat dy) (flat x)"
    by (auto simp: zip_map2 gt0_maxn)
  ultimately have bwd: "relu_backward [b] [t] [db] [dt] ?vals df = Inr (setitem db ?g df)"
    by simp
  have fin: "map2 (\<lambda>d v. if gt0 v then d else mul d (Fin 0)) (flat dy) (flat x) =
             map2 (\<lambda>d v. if gt0 v then d else Fin 0) (flat dy) (flat x)"
    if "list_all is_finite (flat dy)"
    using that by (auto simp: list_all_iff mul_zero_finite dest: set_zip_leftD)
  show ?thesis
    by (intro exI conjI, rule fwd, rule t, rule bwd, simp add: map_of_setitem)
       (simp add: map_of_setitem fin)
qed

theorem relu_forward_backward_witness:
  "\<exists>vals' df'.
     relu_forward [''x''] [''y'']
       [(''x'', farray [3] [1, - 2, 0]), (''y'', farray [3] [0, 0, 0])] = Inr vals' \<and>
     map_of vals' ''y'' = Some (farray [3] [1, 0, 0]) \<and>
     relu_backward [''x''] [''y''] [''x''] [''y''] vals'
       [(''x'', farray [3] [0, 0, 0]), (''y'', farray [3] [5, 6, 7])] = Inr df' \<and>
     map_of df' ''x'' = Some (farray [3] [5, 0, 0])"
  using relu_forward_backward[of "[(''x'', farray [3] [1, - 2, 0]), (''y'', farray [3] [0, 0, 0])]"
      "''x''" "farray [3] [1, - 2, 0]" "''y''" "farray [3] [0, 0, 0]"
      "[(''x'', farray [3] [0, 0, 0]), (''y'', farray [3] [5, 6, 7])]"
      "''x''" "farray [3] [0, 0, 0]" "''y''" "farray [3] [5, 6, 7]"]
  by (simp add: well_formed_def farray_def)

section \<open>The backward pass\<close>







section \<open>Blobs and gradients after setup\<close>

lemma keys_setitem: "set (keys (setitem k v d)) = insert k (set (keys d))"
  by (auto simp: keys_def setitem_def update_keys)




































section \<open>The inner-product layer\<close>

lemma affine_layer_built:
  "layer_init object_attrs InnerProduct [(''output_shape'', VInt 1)] = Inr affine_fresh \<and>
   bind (layer_setup affine_fresh [''x''] [''y''] [(''x'', farray [1, 1] [0]), (''y'', empty0)])
        (\<lambda>(l, st). layer_set_flat_parameters (farray [2] [0, 5]) l) = Inr affine_layer \<and>
   layer_forward affine_layer [''x''] [''y''] [(''x'', farray [1, 1] [2]), (''y'', farray [1] [0])] =
     Inr affine_blobs"
  by code_simp

text \<open>
  C8. The claim has \<^verbatim>\<open>InnerProduct.backward\<close> write into the bottom gradient the
  contraction of the upstream gradient with the weight \<^verbatim>\<open>w\<close>: here \<open>5 * 1 = 5\<close>.
  The code contracts with \<^verbatim>\<open>self.grad_['w']\<close>, the gradient storage: the first call
  writes \<open>0\<close> (the storage is zero after setup) and a second call writes \<open>2\<close>, the
  weight gradient the first call left there. The gradients of \<^verbatim>\<open>w\<close> and \<^verbatim>\<open>b\<close> are
  overwritten, \<open>2\<close> and \<open>1\<close> both times.
\<close>

theorem innerproduct_backward_uses_gradient:
  "layer_backward affine_layer [''x''] [''y''] [''x''] [''y''] affine_blobs affine_diffs =
     Inr (affine_layer\<lparr>grad := [(''w'', farray [1, 1, 1] [2]), (''b'', farray [1] [1])]\<rparr>,
          [(''x'', farray [1, 1] [0]), (''y'', farray [1] [1])]) \<and>
   layer_backward (affine_layer\<lparr>grad := [(''w'', farray [1, 1, 1] [2]), (''b'', farray [1] [1])]\<rparr>)
       [''x''] [''y''] [''x''] [''y''] affine_blobs affine_diffs =
     Inr (affine_layer\<lparr>grad := [(''w'', farray [1, 1, 1] [2]), (''b'', farray [1] [1])]\<rparr>,
          [(''x'', farray [1, 1] [2]), (''y'', farray [1] [1])])"
  by code_simp

lemma innerproduct_backward_ignores_parameters:
  "innerproduct_backward (l\<lparr>prms := p\<rparr>) bottom top' botgrad topgrad vals df =
   map_sum id (\<lambda>(l', d). (l'\<lparr>prms := p\<rparr>, d))
     (innerproduct_backward l bottom top' botgrad topgrad vals df)"
  by (simp add: innerproduct_backward_def bind_def Let_def split: sum.splits)

section \<open>Construction from a configuration\<close>

lemma hasattr_grows: "hasattr oattrs c ats n = (n \<in> set (keys ats) \<or> hasattr oattrs c [] n)"
  by (auto simp: hasattr_def keys_def)

lemma setattr_ok: "\<not> read_only n \<Longrightarrow> setattr n v ats = Inr (setitem n v ats)"
  by (simp add: setattr_def read_only_def)

text \<open>The loop of \<^verbatim>\<open>__init__\<close> over names that can all be assigned: it stops at the
  first name the object does not have, and otherwise stores every value.\<close>

lemma init_loop:
  assumes "\<forall>n \<in> set (keys kw). \<not> read_only n"
    and "\<forall>n \<in> set (keys ats). hasattr oattrs c [] n"
  shows "foldM (\<lambda>(n, v) ats. if hasattr oattrs c ats n then setattr n v ats
                              else Inl (AttributeNotFound n)) kw ats =
         (case find (\<lambda>(n, v). \<not> hasattr oattrs c [] n) kw of
            Some (n, v) \<Rightarrow> Inl (AttributeNotFound n)
          | None \<Rightarrow> Inr (fold (\<lambda>(n, v). setitem n v) kw ats))"
  using assms
proof (induction kw arbitrary: ats)
  case Nil
  then show ?case by simp
next
  case (Cons p kw)
  obtain n v where p: "p = (n, v)" by (cases p) auto
  from Cons.prems p have ro: "\<not> read_only n" and rest: "\<forall>n \<in> set (keys kw). \<not> read_only n"
    by (auto simp: keys_def)
  have h: "hasattr oattrs c ats n = hasattr oattrs c [] n"
    using Cons.prems(2) hasattr_grows[of oattrs c ats n] by auto
  show ?case
  proof (cases "hasattr oattrs c [] n")
    case True
    then have "\<forall>k \<in> set (keys (setitem n v ats)). hasattr oattrs c [] k"
      using Cons.prems(2) by (auto simp: keys_setitem)
    from Cons.IH[OF rest this] True h ro show ?thesis
      unfolding p by (simp add: bind_def setattr_ok split: option.splits)
  next
    case False
    with h show ?thesis unfolding p by (simp add: bind_def split: option.splits)
  qed
qed

lemma fold_setitem_frame:
  "n \<notin> set (keys kw) \<Longrightarrow> map_of (fold (\<lambda>(n, v). setitem n v) kw ats) n = map_of ats n"
proof (induction kw arbitrary: ats)
  case Nil
  then show ?case by simp
next
  case (Cons p kw)
  obtain k v where p: "p = (k, v)" by (cases p) auto
  with Cons show ?case unfolding p by (simp add: keys_def map_of_setitem)
qed

lemma fold_setitem_stores:
  "distinct (keys kw) \<Longrightarrow> (n, v) \<in> set kw \<Longrightarrow>
   map_of (fold (\<lambda>(n, v). setitem n v) kw ats) n = Some v"
proof (induction kw arbitrary: ats)
  case Nil
  then show ?case by simp
next
  case (Cons p kw)
  obtain k a where p: "p = (k, a)" by (cases p) auto
  show ?case
  proof (cases "(n, v) = p")
    case True
    with Cons.prems p have "n \<notin> set (keys kw)" by (auto simp: keys_def)
    with True p show ?thesis unfolding p by (simp add: fold_setitem_frame map_of_setitem)
  next
    case False
    with Cons.prems p have "distinct (keys kw)" "(n, v) \<in> set kw" by (auto simp: keys_def)
    from Cons.IH[OF this] show ?thesis unfolding p by simp
  qed
qed

lemma layer_init_self:
  "''self'' \<in> set (keys kw) \<Longrightarrow> layer_init oattrs c kw = Inl TypeError"
  by (simp add: layer_init_def innerproduct_init_def base_init_def bind_def)

lemma nth_mem_eq: "i < length xs \<Longrightarrow> xs ! i = x \<Longrightarrow> x \<in> set xs"
  by auto

lemma base_init_result:
  assumes "\<forall>n \<in> set (keys kw). \<not> read_only n" and "''self'' \<notin> set (keys kw)"
  shows "base_init oattrs c kw =
         (case find (\<lambda>(n, v). \<not> hasattr oattrs c [] n) kw of
            Some (n, v) \<Rightarrow> Inl (AttributeNotFound n)
          | None \<Rightarrow> Inr \<lparr>cls = c, attrs = fold (\<lambda>(n, v). setitem n v) kw [], grad = [], prms = []\<rparr>)"
proof -
  have "\<forall>n \<in> set (keys ([] :: pyval dict)). hasattr oattrs c [] n" by (simp add: keys_def)
  from init_loop[OF assms(1) this] assms(2) show ?thesis
    by (simp add: base_init_def bind_def split: option.splits prod.splits)
qed

lemma layer_init_result:
  assumes "\<forall>n \<in> set (keys kw). \<not> read_only n" and "''self'' \<notin> set (keys kw)"
  shows "layer_init oattrs c kw =
         (case find (\<lambda>(n, v). \<not> hasattr oattrs c [] n) kw of
            Some (n, v) \<Rightarrow> Inl (AttributeNotFound n)
          | None \<Rightarrow>
              (let ats = fold (\<lambda>(n, v). setitem n v) kw [] in
               Inr \<lparr>cls = c,
                    attrs = (if c = InnerProduct
                             then setitem ''output_shape''
                                    (as_tuple (case map_of ats ''output_shape'' of
                                                 Some v \<Rightarrow> v | None \<Rightarrow> VInt 10)) ats
                             else ats),
                    grad = [], prms = []\<rparr>))"
  by (simp add: layer_init_def innerproduct_init_def base_init_result[OF assms] bind_def getattr_def
           Let_def split: option.splits prod.splits)


text \<open>
  C9, as stated, fails: \<^verbatim>\<open>forward\<close> is no configuration option of the rectified-linear
  layer (it declares none), and \<^verbatim>\<open>ReLU(forward=1)\<close> is constructed all the same, with
  the value stored over the method.
\<close>

theorem layer_init_unrecognized_method_name:
  "class_var ReLU ''forward'' = None \<and>
   layer_init object_attrs ReLU [(''forward'', VInt 1)] =
     Inr \<lparr>cls = ReLU, attrs = [(''forward'', VInt 1)], grad = [], prms = []\<rparr>"
  by code_simp

text \<open>
  C9, amended. Take a configuration mapping without the name \<^verbatim>\<open>self\<close> (as a keyword it
  collides with the first parameter of \<^verbatim>\<open>__init__\<close>: TypeError) and without the names
  that cannot be assigned (\<^verbatim>\<open>type\<close>, \<^verbatim>\<open>__class__\<close>, \<^verbatim>\<open>__dict__\<close>,
  \<^verbatim>\<open>__weakref__\<close>). Construction fails with the "attribute not found" exception if and
  only if the mapping has a name that is not an attribute of the new object, and succeeds
  if and only if every name is one: the class's options (\<^verbatim>\<open>sigma\<close>,
  \<^verbatim>\<open>output_shape\<close>), but the method names and the attributes the interpreter gives
  every object as well (the list \<open>oattrs\<close>, whatever the interpreter's version puts in
  it). On success every value is stored on the instance under its name,
  \<^verbatim>\<open>output_shape\<close> of the inner-product layer as a tuple.
\<close>

theorem layer_init_attribute_check:
  assumes ok: "\<forall>n \<in> set (keys kwargs). n \<noteq> ''self'' \<and> \<not> read_only n"
    and dist: "distinct (keys kwargs)"
  shows "((\<exists>n. layer_init oattrs c kwargs = Inl (AttributeNotFound n)) \<longleftrightarrow>
            (\<exists>n \<in> set (keys kwargs). \<not> hasattr oattrs c [] n)) \<and>
         ((\<exists>l. layer_init oattrs c kwargs = Inr l) \<longleftrightarrow> (\<forall>n \<in> set (keys kwargs). hasattr oattrs c [] n)) \<and>
         (\<forall>l n v. layer_init oattrs c kwargs = Inr l \<and> (n, v) \<in> set kwargs \<longrightarrow>
            map_of (attrs l) n =
              Some (if c = InnerProduct \<and> n = ''output_shape'' then as_tuple v else v))"
proof -
  from ok have ro: "\<forall>n \<in> set (keys kwargs). \<not> read_only n"
    and ns: "''self'' \<notin> set (keys kwargs)" by auto
  show ?thesis
proof (cases "find (\<lambda>(n, v). \<not> hasattr oattrs c [] n) kwargs")
  case None
  then have all: "\<forall>n \<in> set (keys kwargs). hasattr oattrs c [] n"
    by (auto simp: find_None_iff keys_def)
  let ?ats = "fold (\<lambda>(n, v). setitem n v) kwargs []"
  let ?l = "\<lparr>cls = c,
             attrs = (if c = InnerProduct
                      then setitem ''output_shape''
                             (as_tuple (case map_of ?ats ''output_shape'' of
                                          Some v \<Rightarrow> v | None \<Rightarrow> VInt 10)) ?ats
                      else ?ats),
             grad = [], prms = []\<rparr>"
  have res: "layer_init oattrs c kwargs = Inr ?l"
    using layer_init_result[OF ro ns, of oattrs c] None by (simp add: Let_def)
  have stored: "map_of (attrs ?l) n =
      Some (if c = InnerProduct \<and> n = ''output_shape'' then as_tuple v else v)"
    if "(n, v) \<in> set kwargs" for n v
    using fold_setitem_stores[OF dist that, of "[]"] by (auto simp: map_of_setitem)
  show ?thesis
  proof (intro conjI iffI allI impI)
    assume "\<exists>n. layer_init oattrs c kwargs = Inl (AttributeNotFound n)"
    with res show "\<exists>n \<in> set (keys kwargs). \<not> hasattr oattrs c [] n" by simp
  next
    assume "\<exists>n \<in> set (keys kwargs). \<not> hasattr oattrs c [] n"
    with all show "\<exists>n. layer_init oattrs c kwargs = Inl (AttributeNotFound n)" by blast
  next
    show "\<forall>n \<in> set (keys kwargs). hasattr oattrs c [] n" by (rule all)
  next
    show "\<exists>l. layer_init oattrs c kwargs = Inr l" using res by blast
  next
    fix l n v
    assume "layer_init oattrs c kwargs = Inr l \<and> (n, v) \<in> set kwargs"
    with res have "l = ?l" and "(n, v) \<in> set kwargs" by simp_all
    with stored[of n v] show "map_of (attrs l) n =
      Some (if c = InnerProduct \<and> n = ''output_shape'' then as_tuple v else v)" by simp
  qed
next
  case (Some p)
  obtain n v where p: "p = (n, v)" by (cases p) auto
  from Some p have mem: "(n, v) \<in> set kwargs" and bad: "\<not> hasattr oattrs c [] n"
    by (auto simp: find_Some_iff intro: nth_mem_eq)
  then have nk: "n \<in> set (keys kwargs)" by (force simp: keys_def)
  have res: "layer_init oattrs c kwargs = Inl (AttributeNotFound n)"
    using layer_init_result[OF ro ns, of oattrs c] Some p by simp
  show ?thesis
  proof (intro conjI iffI allI impI)
    show "\<exists>n \<in> set (keys kwargs). \<not> hasattr oattrs c [] n" using nk bad by blast
  next
    show "\<exists>n. layer_init oattrs c kwargs = Inl (AttributeNotFound n)" using res by blast
  next
    assume "\<exists>l. layer_init oattrs c kwargs = Inr l"
    with res show "\<forall>n \<in> set (keys kwargs). hasattr oattrs c [] n" by simp
  next
    assume "\<forall>n \<in> set (keys kwargs). hasattr oattrs c [] n"
    with nk bad show "\<exists>l. layer_init oattrs c kwargs = Inr l" by blast
  next
    fix l n' v'
    assume "layer_init oattrs c kwargs = Inr l \<and> (n', v') \<in> set kwargs"
    with res show "map_of (attrs l) n' =
      Some (if c = InnerProduct \<and> n' = ''output_shape'' then as_tuple v' else v')" by simp
  qed
qed
qed

theorem layer_init_attribute_check_witness:
  "(\<exists>n. layer_init object_attrs ReLU [(''sigma'', VFloat 2)] = Inl (AttributeNotFound n)) \<and>
   (\<exists>l. layer_init object_attrs Sigmoid [(''sigma'', VFloat 2)] = Inr l \<and>
        map_of (attrs l) ''sigma'' = Some (VFloat 2)) \<and>
   (\<exists>l. layer_init object_attrs InnerProduct [(''output_shape'', VInt 3)] = Inr l \<and>
        map_of (attrs l) ''output_shape'' = Some (VTuple [VInt 3]))"
proof -
  have ro: "\<forall>n \<in> set (keys [(''sigma'', VFloat 2)]). n \<noteq> ''self'' \<and> \<not> read_only n"
    and d: "distinct (keys [(''sigma'', VFloat 2)])"
    by (simp_all add: keys_def read_only_def)
  have ro': "\<forall>n \<in> set (keys [(''output_shape'', VInt 3)]). n \<noteq> ''self'' \<and> \<not> read_only n"
    and d': "distinct (keys [(''output_shape'', VInt 3)])"
    by (simp_all add: keys_def read_only_def)
  have a: "\<exists>n. layer_init object_attrs ReLU [(''sigma'', VFloat 2)] = Inl (AttributeNotFound n)"
    using layer_init_attribute_check[OF ro d, of object_attrs ReLU]
    by (simp add: keys_def hasattr_def method_names_def object_attrs_def)
  have "\<exists>l. layer_init object_attrs Sigmoid [(''sigma'', VFloat 2)] = Inr l"
    using layer_init_attribute_check[OF ro d, of object_attrs Sigmoid]
    by (simp add: keys_def hasattr_def)
  then have b: "\<exists>l. layer_init object_attrs Sigmoid [(''sigma'', VFloat 2)] = Inr l \<and>
        map_of (attrs l) ''sigma'' = Some (VFloat 2)"
    using layer_init_attribute_check[OF ro d, of object_attrs Sigmoid] by auto
  have "\<exists>l. layer_init object_attrs InnerProduct [(''output_shape'', VInt 3)] = Inr l"
    using layer_init_attribute_check[OF ro' d', of object_attrs InnerProduct]
    by (simp add: keys_def hasattr_def)
  then have c: "\<exists>l. layer_init object_attrs InnerProduct [(''output_shape'', VInt 3)] = Inr l \<and>
        map_of (attrs l) ''output_shape'' = Some (VTuple [VInt 3])"
    using layer_init_attribute_check[OF ro' d', of object_attrs InnerProduct] by auto
  from a b c show ?thesis by blast
qed


end
